theory Spec2Isabelle
  imports Main
begin

section \<open>The movie feature loader of store\_db\_milvus.py\<close>

text \<open>
  The script reads \<^verbatim>\<open>data/movie_feature_calculated.csv\<close> row by row (lines 143 to 186),
  converts the cells of each row and hands the row to the collection. The model follows the
  loop statement by statement. A row is the list of strings \<^verbatim>\<open>csv.reader\<close> yields. A
  Python string is a sequence of Unicode code points: it is modelled as the list of their
  numbers, so that \<open>length\<close> is Python's \<^verbatim>\<open>len\<close>. \<open>py\<close> turns a literal of
  Isabelle, whose characters are bytes, into the string of the same code points.
\<close>

type_synonym pystr = "nat list"

definition py :: "string \<Rightarrow> pystr" where
  "py s = map of_char s"

subsection \<open>The schema (lines 68 to 98)\<close>

datatype dtype = VARCHAR nat | INT64 | FLOAT_VECTOR nat

definition movie_feature_fields :: "(string \<times> dtype) list" where
  "movie_feature_fields =
    [(''cast'', VARCHAR 10000), (''crew'', VARCHAR 10000), (''keywords'', VARCHAR 10000),
     (''adult'', VARCHAR 10000), (''belongs_to_collection'', VARCHAR 10000),
     (''budget'', INT64), (''genres'', VARCHAR 10000), (''homepage'', VARCHAR 10000),
     (''id'', INT64), (''original_language'', VARCHAR 10000),
     (''original_title'', VARCHAR 10000), (''overview'', VARCHAR 10000),
     (''popularity'', INT64), (''poster_path'', VARCHAR 10000),
     (''production_companies'', VARCHAR 10000), (''production_countries'', VARCHAR 10000),
     (''release_date'', VARCHAR 10000), (''release_date_timestamp'', VARCHAR 10000),
     (''have_release_date'', VARCHAR 10000), (''revenue'', INT64), (''runtime'', INT64),
     (''spoken_languages'', VARCHAR 10000), (''status'', VARCHAR 10000),
     (''tagline'', VARCHAR 10000), (''title'', VARCHAR 10000), (''vote_average'', INT64),
     (''vote_count'', INT64), (''movie_feature'', FLOAT_VECTOR 128)]"

subsection \<open>The string methods the loop calls\<close>

text \<open>
  The character classes are those of Unicode 14.0, the version of CPython 3.11. A decimal
  digit (general category Nd) belongs to one of 66 runs of ten code points, the digits zero
  to nine of a script in order; \<open>decimal_starts\<close> lists the zero of each run, and
  \<open>to_decimal\<close> is the digit value, \<open>None\<close> for any other code point.
\<close>

definition decimal_starts :: "nat list" where
  "decimal_starts =
    [48, 1632, 1776, 1984, 2406, 2534, 2662, 2790, 2918, 3046, 3174, 3302, 3430, 3558, 3664,
     3792, 3872, 4160, 4240, 6112, 6160, 6470, 6608, 6784, 6800, 6992, 7088, 7232, 7248, 42528,
     43216, 43264, 43472, 43504, 43600, 44016, 65296, 66720, 68912, 69734, 69872, 69942, 70096,
     70384, 70736, 70864, 71248, 71360, 71472, 71904, 72016, 72784, 73040, 73120, 92768, 92864,
     93008, 120782, 120792, 120802, 120812, 120822, 123200, 123632, 125264, 130032]"

definition to_decimal :: "nat \<Rightarrow> nat option" where
  "to_decimal c =
    (case find (\<lambda>zero. zero \<le> c \<and> c < zero + 10) decimal_starts of
       Some zero \<Rightarrow> Some (c - zero)
     | None \<Rightarrow> None)"

definition decimal_char :: "nat \<Rightarrow> bool" where
  "decimal_char c = (to_decimal c \<noteq> None)"

definition digit_value :: "nat \<Rightarrow> nat" where
  "digit_value c = (case to_decimal c of Some v \<Rightarrow> v | None \<Rightarrow> 0)"

text \<open>
  The code points with a numeric value that are not decimal digits (superscripts,
  fractions, Roman numerals, ideographic numbers and others), as inclusive ranges.
\<close>

definition other_numeric :: "(nat \<times> nat) list" where
  "other_numeric =
    [(178, 179), (185, 185), (188, 190), (2548, 2553), (2930, 2935), (3056, 3058), (3192, 3198),
     (3416, 3422), (3440, 3448), (3882, 3891), (4969, 4988), (5870, 5872), (6128, 6137),
     (6618, 6618), (8304, 8304), (8308, 8313), (8320, 8329), (8528, 8578), (8581, 8585),
     (9312, 9371), (9450, 9471), (10102, 10131), (11517, 11517), (12295, 12295), (12321, 12329),
     (12344, 12346), (12690, 12693), (12832, 12841), (12872, 12879), (12881, 12895),
     (12928, 12937), (12977, 12991), (13317, 13317), (13443, 13443), (14378, 14378),
     (15181, 15181), (19968, 19968), (19971, 19971), (19975, 19975), (19977, 19977),
     (20061, 20061), (20108, 20108), (20116, 20116), (20118, 20118), (20159, 20160),
     (20191, 20191), (20200, 20200), (20237, 20237), (20336, 20336), (20740, 20740),
     (20806, 20806), (20841, 20841), (20843, 20843), (20845, 20845), (21313, 21313),
     (21315, 21317), (21324, 21324), (21441, 21444), (22235, 22235), (22769, 22769),
     (22777, 22777), (24186, 24186), (24318, 24319), (24332, 24334), (24336, 24336),
     (25342, 25342), (25420, 25420), (26578, 26578), (28422, 28422), (29590, 29590),
     (30334, 30334), (32902, 32902), (33836, 33836), (36014, 36014), (36019, 36019),
     (36144, 36144), (38433, 38433), (38470, 38470), (38476, 38476), (38520, 38520),
     (38646, 38646), (42726, 42735), (43056, 43061), (63851, 63851), (63859, 63859),
     (63864, 63864), (63922, 63922), (63953, 63953), (63955, 63955), (63997, 63997),
     (65799, 65843), (65856, 65912), (65930, 65931), (66273, 66299), (66336, 66339),
     (66369, 66369), (66378, 66378), (66513, 66517), (67672, 67679), (67705, 67711),
     (67751, 67759), (67835, 67839), (67862, 67867), (68028, 68029), (68032, 68047),
     (68050, 68095), (68160, 68168), (68221, 68222), (68253, 68255), (68331, 68335),
     (68440, 68447), (68472, 68479), (68521, 68527), (68858, 68863), (69216, 69246),
     (69405, 69414), (69457, 69460), (69573, 69579), (69714, 69733), (70113, 70132),
     (71482, 71483), (71914, 71922), (72794, 72812), (73664, 73684), (74752, 74862),
     (93019, 93025), (93824, 93846), (119520, 119539), (119648, 119672), (125127, 125135),
     (126065, 126123), (126125, 126127), (126129, 126132), (126209, 126253), (126255, 126269),
     (127232, 127244), (131073, 131073), (131172, 131172), (131298, 131298), (131361, 131361),
     (133418, 133418), (133507, 133507), (133516, 133516), (133532, 133532), (133866, 133866),
     (133885, 133885), (133913, 133913), (140176, 140176), (141720, 141720), (146203, 146203),
     (156269, 156269), (194704, 194704)]"

definition numeric_char :: "nat \<Rightarrow> bool" where
  "numeric_char c =
    (if decimal_char c then True else list_ex (\<lambda>(lo, hi). lo \<le> c \<and> c \<le> hi) other_numeric)"

text \<open>
  \<^verbatim>\<open>str.isdecimal\<close> and \<^verbatim>\<open>str.isnumeric\<close> hold of a non-empty string whose characters
  are all decimal digits, or all have a numeric value.
\<close>

definition isdecimal :: "pystr \<Rightarrow> bool" where
  "isdecimal s = (s \<noteq> [] \<and> list_all decimal_char s)"

definition isnumeric :: "pystr \<Rightarrow> bool" where
  "isnumeric s = (s \<noteq> [] \<and> list_all numeric_char s)"

definition decimal_value :: "pystr \<Rightarrow> nat" where
  "decimal_value s = foldl (\<lambda>n c. 10 * n + digit_value c) 0 s"

text \<open>
  \<^verbatim>\<open>int(data)\<close>, as the loop calls it: on a string that passed \<^verbatim>\<open>isnumeric\<close>. Such a
  string holds no sign, blank or underscore, so the call returns exactly when every character
  is a decimal digit and there are no more digits than the interpreter converts, and raises
  \<^verbatim>\<open>ValueError\<close> otherwise (\<open>None\<close>). The limit on the digits is that of
  \<^verbatim>\<open>sys.get_int_max_str_digits()\<close>, 4300 unless the interpreter is told otherwise; leading
  zeros count. Python's integers themselves are unbounded.
\<close>

definition int_max_str_digits :: nat where
  "int_max_str_digits = 4300"

definition py_int :: "pystr \<Rightarrow> int option" where
  "py_int s =
    (if isdecimal s \<and> length s \<le> int_max_str_digits then Some (int (decimal_value s))
     else None)"

text \<open>\<^verbatim>\<open>data.replace(old, new)\<close> for one-character \<^verbatim>\<open>old\<close> and \<^verbatim>\<open>new\<close>.\<close>

definition replace_chr :: "nat \<Rightarrow> nat \<Rightarrow> pystr \<Rightarrow> pystr" where
  "replace_chr old new s = map (\<lambda>c. if c = old then new else c) s"

subsection \<open>One column of the conversion loop (lines 165 to 175)\<close>

text \<open>
  What the loop stores in \<^verbatim>\<open>data_arr\<close>: the integer \<^verbatim>\<open>int\<close> returns, or the string
  with its single quotes (code point 39) replaced by blanks (32). A column ends with the
  assignment of line 175, with the \<^verbatim>\<open>break\<close> of line 173, or with the exception
  \<^verbatim>\<open>int\<close> raises.
\<close>

datatype scalar = PyInt int | PyStr pystr

datatype exn = ValueError | LiteralEvalError | IndexError

datatype cell_outcome = Assigned scalar | Long | CellRaised exn

definition numeric_columns_idx :: "nat list" where
  "numeric_columns_idx = [5, 8, 12, 19, 20, 25, 26]"

definition convert_cell :: "nat \<Rightarrow> pystr \<Rightarrow> cell_outcome" where
  "convert_cell col data =
    (if isnumeric data \<and> col \<in> set numeric_columns_idx then
       (case py_int data of
          Some n \<Rightarrow> Assigned (PyInt n)
        | None \<Rightarrow> CellRaised ValueError)
     else
       (let data' = replace_chr 39 32 data in
        if 10000 < length data' then Long else Assigned (PyStr data')))"

subsection \<open>The conversion loop over the columns (lines 164 to 175)\<close>

datatype cols_outcome = Converted "scalar list" | LongData | ColsRaised exn

fun convert_cols :: "nat \<Rightarrow> pystr list \<Rightarrow> cols_outcome" where
  "convert_cols col [] = Converted []"
| "convert_cols col (data # rest) =
    (case convert_cell col data of
       CellRaised e \<Rightarrow> ColsRaised e
     | Long \<Rightarrow> LongData
     | Assigned v \<Rightarrow>
        (case convert_cols (Suc col) rest of
           Converted vs \<Rightarrow> Converted (v # vs)
         | LongData \<Rightarrow> LongData
         | ColsRaised e \<Rightarrow> ColsRaised e))"

subsection \<open>The last cell (line 180)\<close>

text \<open>
  \<^verbatim>\<open>data_arr[len(data_arr) - 1] = ast.literal_eval(data_arr[len(data_arr) - 1])\<close>.
  \<^verbatim>\<open>ast.literal_eval\<close> belongs to Python's library; the model takes it as a parameter
  \<open>literal_eval\<close>, a function from the string to the value parsed, \<open>None\<close> when it
  raises. From this line on an entry of \<^verbatim>\<open>data_arr\<close> is a scalar or the parsed value.
  On an empty list the index is out of range; on an integer \<^verbatim>\<open>ast.literal_eval\<close> raises
  \<^verbatim>\<open>ValueError\<close>.
\<close>

datatype 'v entry = Scalar scalar | Parsed 'v

definition eval_last :: "(pystr \<Rightarrow> 'v option) \<Rightarrow> scalar list \<Rightarrow> exn + 'v entry list" where
  "eval_last literal_eval data_arr =
    (if data_arr = [] then Inl IndexError
     else
       (case last data_arr of
          PyStr s \<Rightarrow>
            (case literal_eval s of
               None \<Rightarrow> Inl LiteralEvalError
             | Some v \<Rightarrow> Inr (map Scalar (butlast data_arr) @ [Parsed v]))
        | PyInt n \<Rightarrow> Inl ValueError))"

subsection \<open>The body of the row loop (lines 151 to 186)\<close>

text \<open>
  The variables that outlive an iteration: the counter \<^verbatim>\<open>it\<close>, the lists
  \<^verbatim>\<open>insert_data\<close> and the flag \<^verbatim>\<open>long_data_exists\<close> (both set anew at lines 160 and
  161), and \<open>inserted\<close>, the arguments of the calls of
  \<^verbatim>\<open>movie_feature_collection.insert\<close> so far, oldest first. The collection itself is
  outside the script. The first parameter is the bound of line 155, 20000 in the script.
\<close>

record 'v vars =
  it :: nat
  insert_data :: "'v entry list list"
  long_data_exists :: bool
  inserted :: "'v entry list list list"

datatype control = Next | Break | Raise exn

definition loop_body ::
  "nat \<Rightarrow> (pystr \<Rightarrow> 'v option) \<Rightarrow> 'v vars \<Rightarrow> pystr list \<Rightarrow> control \<times> 'v vars" where
  "loop_body bound literal_eval s movie_feature =
    (if length movie_feature < 29 then (Next, s)
     else if bound < it s then (Break, s)
     else
       (let s1 = s\<lparr>insert_data := [], long_data_exists := False\<rparr> in
        case convert_cols 0 (tl movie_feature) of
          ColsRaised e \<Rightarrow> (Raise e, s1)
        | LongData \<Rightarrow> (Next, s1\<lparr>long_data_exists := True\<rparr>)
        | Converted data_arr \<Rightarrow>
           (case eval_last literal_eval data_arr of
              Inl e \<Rightarrow> (Raise e, s1)
            | Inr data_arr' \<Rightarrow>
               (let s2 = s1\<lparr>insert_data := map (\<lambda>data. [data]) data_arr'\<rparr> in
                (Next, s2\<lparr>inserted := inserted s2 @ [insert_data s2], it := it s2 + 1\<rparr>)))))"

subsection \<open>The row loop (lines 143 to 186)\<close>

text \<open>
  The loop ends when the reader is exhausted, at the \<^verbatim>\<open>break\<close> of line 156, or with an
  exception nothing catches. The result holds the variables at that moment and the rows the
  reader has not handed out.
\<close>

datatype ending = Exhausted | Stopped | Aborted exn

fun movie_loop ::
  "nat \<Rightarrow> (pystr \<Rightarrow> 'v option) \<Rightarrow> 'v vars \<Rightarrow> pystr list list
    \<Rightarrow> ending \<times> 'v vars \<times> pystr list list" where
  "movie_loop bound literal_eval s [] = (Exhausted, s, [])"
| "movie_loop bound literal_eval s (movie_feature # rest) =
    (case loop_body bound literal_eval s movie_feature of
       (Next, s') \<Rightarrow> movie_loop bound literal_eval s' rest
     | (Break, s') \<Rightarrow> (Stopped, s', rest)
     | (Raise e, s') \<Rightarrow> (Aborted e, s', rest))"

definition start :: "'v vars" where
  "start = \<lparr>it = 0, insert_data = [], long_data_exists = False, inserted = []\<rparr>"

text \<open>Line 145 skips the header; line 147 sets the counter; the bound is 20000.\<close>

definition insert_movie_features ::
  "(pystr \<Rightarrow> 'v option) \<Rightarrow> pystr list list \<Rightarrow> ending \<times> 'v vars \<times> pystr list list" where
  "insert_movie_features literal_eval csv_rows = movie_loop 20000 literal_eval start (drop 1 csv_rows)"

subsection \<open>What a run reports\<close>

text \<open>
  Of the variables, the counter and the calls of insert are what a run leaves behind;
  \<^verbatim>\<open>insert_data\<close> and \<^verbatim>\<open>long_data_exists\<close> are scratch variables of the body.
\<close>

fun report ::
  "ending \<times> 'v vars \<times> pystr list list
    \<Rightarrow> ending \<times> nat \<times> 'v entry list list list \<times> pystr list list" where
  "report (e, s, unread) = (e, it s, inserted s, unread)"

text \<open>A row the body inserts when the counter admits it.\<close>

definition accepts :: "(pystr \<Rightarrow> 'v option) \<Rightarrow> pystr list \<Rightarrow> bool" where
  "accepts literal_eval movie_feature =
    (29 \<le> length movie_feature \<and>
     (case convert_cols 0 (tl movie_feature) of
        Converted data_arr \<Rightarrow>
          (case eval_last literal_eval data_arr of Inr data_arr' \<Rightarrow> True | Inl e \<Rightarrow> False)
      | LongData \<Rightarrow> False
      | ColsRaised e \<Rightarrow> False))"

text \<open>A row the body skips at line 153 or at line 178.\<close>

definition skips :: "pystr list \<Rightarrow> bool" where
  "skips movie_feature =
    (length movie_feature < 29 \<or>
     (case convert_cols 0 (tl movie_feature) of
        LongData \<Rightarrow> True
      | Converted data_arr \<Rightarrow> False
      | ColsRaised e \<Rightarrow> False))"

subsection \<open>Sample data\<close>

text \<open>
  The vector cells of the data file are bracketed lists of decimal numbers. On such a
  string \<^verbatim>\<open>ast.literal_eval\<close> returns the list of the numbers, kept here as the list of
  their numerals; \<open>number_list\<close> reads these strings and no others, and stands for
  \<^verbatim>\<open>ast.literal_eval\<close> in the examples, where it is applied to such lists and to a
  list that lacks its closing bracket, on which \<^verbatim>\<open>ast.literal_eval\<close> raises
  \<^verbatim>\<open>SyntaxError\<close>. The digits of a Python numeral are the ten of ASCII (48 to 57); the
  other characters are the blank and the tab (32, 9), the comma (44), the minus (45), the
  point (46) and the brackets (91, 93).
\<close>

definition is_blank :: "nat \<Rightarrow> bool" where
  "is_blank c = (c = 32 \<or> c = 9)"

definition ascii_digit :: "nat \<Rightarrow> bool" where
  "ascii_digit c = (48 \<le> c \<and> c \<le> 57)"

definition strip_blanks :: "pystr \<Rightarrow> pystr" where
  "strip_blanks s = rev (dropWhile is_blank (rev (dropWhile is_blank s)))"

fun split_commas :: "pystr \<Rightarrow> pystr list" where
  "split_commas [] = [[]]"
| "split_commas (c # cs) =
    (if c = 44 then [] # split_commas cs
     else (case split_commas cs of w # ws \<Rightarrow> (c # w) # ws | [] \<Rightarrow> [[c]]))"

definition is_number :: "pystr \<Rightarrow> bool" where
  "is_number s =
    (let u = (if s \<noteq> [] \<and> hd s = 45 then tl s else s);
         whole = takeWhile ascii_digit u;
         r = dropWhile ascii_digit u
     in whole \<noteq> [] \<and>
        (if r = [] then whole = [48] \<or> hd whole \<noteq> 48
         else hd r = 46 \<and> tl r \<noteq> [] \<and> list_all ascii_digit (tl r)))"

definition number_list :: "pystr \<Rightarrow> pystr list option" where
  "number_list s =
    (let t = strip_blanks s in
     if length t < 2 \<or> hd t \<noteq> 91 \<or> last t \<noteq> 93 then None
     else
       (let items = map strip_blanks (split_commas (butlast (tl t))) in
        if items = [[]] then Some []
        else if list_all is_number items then Some items else None))"

definition sample_header :: "pystr list" where
  "sample_header = [] # map (py \<circ> fst) movie_feature_fields"

text \<open>
  Rows of the file's shape: the index, then the 28 cells of the schema, of which the
  budget (position 5), the title (position 24) and the vector (position 27) vary in the
  examples. The cell at position 17 is a timestamp, all digits and not an integer column.
\<close>

definition cells_before_budget :: "pystr list" where
  "cells_before_budget = map py [''[]'', ''[]'', ''[]'', ''False'', '''']"

definition cells_before_title :: "pystr list" where
  "cells_before_title =
    map py
     [''[]'', '''', ''862'', ''en'', ''Toy Story'', ''Led by Woody'', ''21'', ''/a.jpg'',
      ''[]'', ''[]'', ''1995-10-30'', ''815040000'', ''True'', ''373554033'', ''81'', ''[]'',
      ''Released'', '''']"

definition cells_after_title :: "pystr list" where
  "cells_after_title = map py [''7'', ''5415'']"

definition movie_row :: "pystr \<Rightarrow> pystr \<Rightarrow> pystr \<Rightarrow> pystr \<Rightarrow> pystr list" where
  "movie_row index budget title movie_feature =
    index # cells_before_budget @ budget # cells_before_title @ title # cells_after_title
      @ [movie_feature]"

definition values_before_budget :: "scalar list" where
  "values_before_budget =
    [PyStr (py ''[]''), PyStr (py ''[]''), PyStr (py ''[]''), PyStr (py ''False''), PyStr []]"

definition values_before_title :: "scalar list" where
  "values_before_title =
    [PyStr (py ''[]''), PyStr [], PyInt 862, PyStr (py ''en''), PyStr (py ''Toy Story''),
     PyStr (py ''Led by Woody''), PyInt 21, PyStr (py ''/a.jpg''), PyStr (py ''[]''),
     PyStr (py ''[]''), PyStr (py ''1995-10-30''), PyStr (py ''815040000''),
     PyStr (py ''True''), PyInt 373554033, PyInt 81, PyStr (py ''[]''),
     PyStr (py ''Released''), PyStr []]"

definition values_after_title :: "scalar list" where
  "values_after_title = [PyInt 7, PyInt 5415]"

definition movie_values :: "scalar \<Rightarrow> scalar \<Rightarrow> scalar list" where
  "movie_values budget title =
    values_before_budget @ budget # values_before_title @ title # values_after_title"

text \<open>
  A row as the file holds them, with a vector of two numbers; the same with a vector that
  lacks its bracket; with a title of 10001 letters; with a vector cell of 10001
  characters; with superscript two (code point 178) as the budget and a title of 10001
  letters; and a row of three cells.
\<close>

definition sample_row :: "pystr list" where
  "sample_row = movie_row (py ''0'') (py ''30000000'') (py ''Toy Story'') (py ''[0.5, -1.25]'')"

definition sample_record :: "pystr list entry list list" where
  "sample_record =
    map (\<lambda>data. [data])
      (map Scalar (movie_values (PyInt 30000000) (PyStr (py ''Toy Story'')))
        @ [Parsed [py ''0.5'', py ''-1.25'']])"

definition broken_vector_row :: "pystr list" where
  "broken_vector_row =
    movie_row (py ''1'') (py ''30000000'') (py ''Toy Story'') (py ''[0.5, -1.25'')"

definition long_title_row :: "pystr list" where
  "long_title_row =
    movie_row (py ''2'') (py ''30000000'') (replicate 10001 97) (py ''[0.5, -1.25]'')"

definition long_vector_row :: "pystr list" where
  "long_vector_row =
    movie_row (py ''3'') (py ''30000000'') (py ''Toy Story'') (replicate 10001 49)"

definition superscript_title_row :: "pystr list" where
  "superscript_title_row = movie_row (py ''4'') [178] (replicate 10001 97) (py ''[0.5, -1.25]'')"

definition short_row :: "pystr list" where
  "short_row = map py [''6'', ''[]'', ''[]'']"

text \<open>
  A row whose vector cell holds a quoted number, \<^verbatim>\<open>['0.5']\<close>; the rows whose budget
  is the digit seven written \<open>n\<close> times; and values of the variables other than the
  initial ones.
\<close>

definition quoted_vector :: pystr where
  "quoted_vector = [91, 39] @ py ''0.5'' @ [39, 93]"

definition quoted_vector_row :: "pystr list" where
  "quoted_vector_row = movie_row (py ''7'') (py ''30000000'') (py ''Toy Story'') quoted_vector"

definition digits_budget_row :: "nat \<Rightarrow> pystr list" where
  "digits_budget_row n =
    movie_row (py ''8'') (replicate n 55) (py ''Toy Story'') (py ''[0.5, -1.25]'')"

definition other_state :: "pystr list vars" where
  "other_state =
    \<lparr>it = 7, insert_data = [[Scalar (PyInt 1)]], long_data_exists = True, inserted = [[], []]\<rparr>"

section \<open>Facts about the conversion of a row\<close>

text \<open>
  The test of line 167, with the position looked at first: for evaluating a cell at a
  given position.
\<close>

lemma convert_cell_eval:
  "convert_cell col d =
    (if col \<in> set numeric_columns_idx then
       (if isnumeric d then
          (case py_int d of Some n \<Rightarrow> Assigned (PyInt n) | None \<Rightarrow> CellRaised ValueError)
        else if 10000 < length d then Long else Assigned (PyStr (replace_chr 39 32 d)))
     else if 10000 < length d then Long else Assigned (PyStr (replace_chr 39 32 d)))"
  by (simp add: convert_cell_def Let_def replace_chr_def)

lemmas char_defs = isnumeric_def numeric_char_def decimal_char_def to_decimal_def
  decimal_starts_def other_numeric_def isdecimal_def decimal_value_def digit_value_def

lemmas cell_defs = convert_cell_eval numeric_columns_idx_def py_int_def int_max_str_digits_def
  replace_chr_def py_def char_defs

lemma number_list_sample: "number_list (py ''[0.5, -1.25]'') = Some [py ''0.5'', py ''-1.25'']"
  by (simp add: number_list_def strip_blanks_def is_blank_def is_number_def ascii_digit_def py_def)

lemma number_list_unclosed: "number_list (py ''[0.5, -1.25'') = None"
  by (simp add: number_list_def strip_blanks_def is_blank_def py_def)

lemma isdecimal_isnumeric: "isdecimal d \<Longrightarrow> isnumeric d"
  by (simp add: isdecimal_def isnumeric_def numeric_char_def list_all_iff)

lemma quote_not_decimal: "\<not> decimal_char 39"
  by (simp add: decimal_char_def to_decimal_def decimal_starts_def)

lemma replace_decimal_chars: "list_all decimal_char d \<Longrightarrow> replace_chr 39 c d = d"
proof (induction d)
  case Nil
  show ?case by (simp add: replace_chr_def)
next
  case (Cons x xs)
  then have "x \<noteq> 39" using quote_not_decimal by auto
  with Cons show ?case by (simp add: replace_chr_def)
qed

lemma replace_decimal: "isdecimal d \<Longrightarrow> replace_chr 39 c d = d"
  by (simp add: isdecimal_def replace_decimal_chars)

lemma length_replace_chr: "length (replace_chr a b s) = length s"
  by (simp add: replace_chr_def)

lemma no_quote_left: "39 \<notin> set (replace_chr 39 32 d)"
  by (induction d) (simp_all add: replace_chr_def)

lemma list_all_replicate: "list_all P (replicate n x) = (n = 0 \<or> P x)"
  by (induction n) auto

lemma convert_cols_append:
  "convert_cols col (pre @ post) =
    (case convert_cols col pre of
       Converted vs \<Rightarrow>
         (case convert_cols (col + length pre) post of
            Converted ws \<Rightarrow> Converted (vs @ ws)
          | LongData \<Rightarrow> LongData
          | ColsRaised e \<Rightarrow> ColsRaised e)
     | LongData \<Rightarrow> LongData
     | ColsRaised e \<Rightarrow> ColsRaised e)"
proof (induction pre arbitrary: col)
  case Nil
  show ?case by (simp split: cols_outcome.splits)
next
  case (Cons d ds)
  show ?case
  proof (cases "convert_cell col d")
    case (Assigned v)
    then show ?thesis
      using Cons.IH [of "Suc col"]
      by (cases "convert_cols (Suc col) ds"; cases "convert_cols (Suc (col + length ds)) post"; simp)
  qed simp_all
qed

lemma convert_cols_LongData:
  "convert_cols col cells = LongData \<Longrightarrow>
     \<exists>j<length cells. convert_cell (col + j) (cells ! j) = Long"
proof (induction cells arbitrary: col)
  case Nil
  then show ?case by simp
next
  case (Cons d ds)
  show ?case
  proof (cases "convert_cell col d")
    case (Assigned v)
    with Cons.prems have "convert_cols (Suc col) ds = LongData"
      by (simp split: cols_outcome.splits)
    from Cons.IH [OF this] obtain j where "j < length ds"
      and "convert_cell (Suc col + j) (ds ! j) = Long" by blast
    then have "Suc j < length (d # ds) \<and>
        convert_cell (col + Suc j) ((d # ds) ! Suc j) = Long" by simp
    then show ?thesis by blast
  next
    case Long
    then have "0 < length (d # ds) \<and> convert_cell (col + 0) ((d # ds) ! 0) = Long"
      by simp
    then show ?thesis by blast
  next
    case (CellRaised e)
    with Cons.prems show ?thesis by simp
  qed
qed

lemma convert_cols_nth:
  "convert_cols col cells = Converted vs \<Longrightarrow>
     length vs = length cells \<and>
     (\<forall>j<length cells. convert_cell (col + j) (cells ! j) = Assigned (vs ! j))"
proof (induction cells arbitrary: col vs)
  case Nil
  then show ?case by simp
next
  case (Cons d ds)
  from Cons.prems obtain v ws where v: "convert_cell col d = Assigned v"
    and ws: "convert_cols (Suc col) ds = Converted ws" and vs: "vs = v # ws"
    by (auto split: cell_outcome.splits cols_outcome.splits)
  from Cons.IH [OF ws] have len: "length ws = length ds"
    and all: "\<forall>j<length ds. convert_cell (Suc col + j) (ds ! j) = Assigned (ws ! j)" by auto
  show ?case
  proof (intro conjI allI impI)
    show "length vs = length (d # ds)" using len vs by simp
  next
    fix j assume "j < length (d # ds)"
    then show "convert_cell (col + j) ((d # ds) ! j) = Assigned (vs ! j)"
      using v all vs by (cases j) auto
  qed
qed

lemma convert_cell_text:
  "\<not> (isnumeric d \<and> col \<in> set numeric_columns_idx) \<Longrightarrow>
     convert_cell col d =
       (if 10000 < length d then Long else Assigned (PyStr (replace_chr 39 32 d)))"
  by (auto simp: convert_cell_def Let_def length_replace_chr)

lemma convert_cell_decimal:
  "isdecimal d \<Longrightarrow> col \<in> set numeric_columns_idx \<Longrightarrow>
     convert_cell col d =
       (if length d \<le> int_max_str_digits then Assigned (PyInt (int (decimal_value d)))
        else CellRaised ValueError)"
  by (simp add: convert_cell_def py_int_def isdecimal_isnumeric)

lemma convert_cell_PyInt:
  "convert_cell col d = Assigned (PyInt n) \<Longrightarrow>
     isdecimal d \<and> length d \<le> int_max_str_digits \<and> col \<in> set numeric_columns_idx \<and>
     n = int (decimal_value d)"
  by (auto simp: convert_cell_def py_int_def Let_def split: if_splits option.splits)

lemma convert_cell_raises:
  "convert_cell col d = CellRaised e \<Longrightarrow>
     e = ValueError \<and> isnumeric d \<and> col \<in> set numeric_columns_idx \<and>
     \<not> (isdecimal d \<and> length d \<le> int_max_str_digits)"
  by (auto simp: convert_cell_def py_int_def Let_def split: if_splits option.splits)

lemma convert_cols_raises: "convert_cols col cells = ColsRaised e \<Longrightarrow> e = ValueError"
proof (induction cells arbitrary: col)
  case Nil
  then show ?case by simp
next
  case (Cons d ds)
  show ?case
  proof (cases "convert_cell col d")
    case (Assigned v)
    with Cons.prems have "convert_cols (Suc col) ds = ColsRaised e"
      by (cases "convert_cols (Suc col) ds") simp_all
    then show ?thesis by (rule Cons.IH)
  next
    case Long
    with Cons.prems show ?thesis by simp
  next
    case (CellRaised e')
    with Cons.prems have "e' = e" by simp
    with CellRaised show ?thesis by (simp add: convert_cell_raises)
  qed
qed

lemma convert_cell_Long:
  "convert_cell col d = Long \<Longrightarrow>
     \<not> (isnumeric d \<and> col \<in> set numeric_columns_idx) \<and> 10000 < length d"
  by (auto simp: convert_cell_def Let_def length_replace_chr split: if_splits option.splits)

lemma allowlist_below_27: "col \<in> set numeric_columns_idx \<Longrightarrow> col < 27"
  by (auto simp: numeric_columns_idx_def)

lemma text_cell_long:
  assumes "\<not> (isnumeric d \<and> col \<in> set numeric_columns_idx)"
    and "10000 < length (replace_chr 39 32 d)"
  shows "convert_cell col d = Long"
  using assms by (simp add: convert_cell_text length_replace_chr)

text \<open>An over-long text cell that the loop gets to ends the loop\<close>

lemma long_cell_leaves_loop:
  assumes "\<not> (isnumeric d \<and> length pre \<in> set numeric_columns_idx)"
    and "10000 < length (replace_chr 39 32 d)"
    and "convert_cols 0 pre = Converted ws"
  shows "convert_cols 0 (pre @ d # post) = LongData"
proof -
  from assms(1,2) have "convert_cell (length pre) d = Long" by (rule text_cell_long)
  then have "convert_cols (length pre) (d # post) = LongData" by simp
  with assms(3) show ?thesis by (simp add: convert_cols_append)
qed

text \<open>and with such a cell anywhere in it a row is never converted to the end.\<close>

lemma long_cell_never_converted:
  assumes "\<not> (isnumeric d \<and> length pre \<in> set numeric_columns_idx)"
    and "10000 < length (replace_chr 39 32 d)"
  shows "convert_cols 0 (pre @ d # post) \<noteq> Converted vs"
proof -
  from assms have "convert_cell (length pre) d = Long" by (rule text_cell_long)
  then have "convert_cols (length pre) (d # post) = LongData" by simp
  then show ?thesis
    by (cases "convert_cols 0 pre") (simp_all add: convert_cols_append)
qed

lemma raising_cell_ends_loop:
  assumes "convert_cell (length pre) d = CellRaised e" and "convert_cols 0 pre = Converted ws"
  shows "convert_cols 0 (pre @ d # post) = ColsRaised e"
proof -
  from assms(1) have "convert_cols (length pre) (d # post) = ColsRaised e" by simp
  with assms(2) show ?thesis by (simp add: convert_cols_append)
qed

lemma last_cell_is_text:
  assumes "29 \<le> length r"
  shows "convert_cell (length (butlast (tl r))) (last r) =
     (if 10000 < length (last r) then Long
      else Assigned (PyStr (replace_chr 39 32 (last r))))"
proof -
  from assms have "27 \<le> length (butlast (tl r))" by simp
  then have "length (butlast (tl r)) \<notin> set numeric_columns_idx"
    using allowlist_below_27 [of "length (butlast (tl r))"] by auto
  then show ?thesis by (simp add: convert_cell_text)
qed

lemma row_parts:
  assumes "29 \<le> length r"
  shows "tl r = butlast (tl r) @ [last r]"
proof -
  from assms have "tl r \<noteq> []" by (cases r) auto
  then have "tl r = butlast (tl r) @ [last (tl r)]" by simp
  moreover from \<open>tl r \<noteq> []\<close> have "last (tl r) = last r" by (cases r) auto
  ultimately show ?thesis by simp
qed

lemma last_converted:
  assumes len: "29 \<le> length r" and cols: "convert_cols 0 (tl r) = Converted vs"
  shows "vs \<noteq> [] \<and> last vs = PyStr (replace_chr 39 32 (last r)) \<and>
         convert_cols 0 (butlast (tl r)) = Converted (butlast vs)"
proof -
  let ?pre = "butlast (tl r)"
  from cols row_parts [OF len] have c: "convert_cols 0 (?pre @ [last r]) = Converted vs" by simp
  then obtain ws v where pre: "convert_cols 0 ?pre = Converted ws"
    and l: "convert_cell (length ?pre) (last r) = Assigned v" and vs: "vs = ws @ [v]"
    by (auto simp: convert_cols_append split: cols_outcome.splits cell_outcome.splits)
  from l last_cell_is_text [OF len] have "v = PyStr (replace_chr 39 32 (last r))"
    by (simp split: if_splits)
  with pre vs show ?thesis by simp
qed

section \<open>The sample rows, column by column\<close>

lemma before_budget_converted: "convert_cols 0 cells_before_budget = Converted values_before_budget"
  by (simp add: cells_before_budget_def values_before_budget_def cell_defs)

lemma before_title_converted: "convert_cols 6 cells_before_title = Converted values_before_title"
  by (simp add: cells_before_title_def values_before_title_def cell_defs)

lemma after_title_converted: "convert_cols 25 cells_after_title = Converted values_after_title"
  by (simp add: cells_after_title_def values_after_title_def cell_defs)

lemma length_segments:
  "length cells_before_budget = 5" "length cells_before_title = 18" "length cells_after_title = 2"
  by (simp_all add: cells_before_budget_def cells_before_title_def cells_after_title_def)

lemma length_movie_row: "length (movie_row i b t v) = 29"
  by (simp add: movie_row_def length_segments)

lemma last_movie_row: "last (movie_row i b t v) = v"
  by (simp add: movie_row_def)

lemma movie_row_cols:
  "convert_cols 0 (tl (movie_row i b t v)) =
    (case convert_cell 5 b of
       CellRaised e \<Rightarrow> ColsRaised e
     | Long \<Rightarrow> LongData
     | Assigned bv \<Rightarrow>
        (case convert_cell 24 t of
           CellRaised e \<Rightarrow> ColsRaised e
         | Long \<Rightarrow> LongData
         | Assigned tv \<Rightarrow>
            (case convert_cell 27 v of
               CellRaised e \<Rightarrow> ColsRaised e
             | Long \<Rightarrow> LongData
             | Assigned vv \<Rightarrow> Converted (movie_values bv tv @ [vv]))))"
  by (simp add: movie_row_def convert_cols_append before_budget_converted
        before_title_converted after_title_converted length_segments movie_values_def
      split: cell_outcome.splits)

lemma budget_cell: "convert_cell 5 (py ''30000000'') = Assigned (PyInt 30000000)"
  by (simp add: cell_defs)

lemma title_cell: "convert_cell 24 (py ''Toy Story'') = Assigned (PyStr (py ''Toy Story''))"
  by (simp add: cell_defs)

lemma vector_cell: "convert_cell 27 (py ''[0.5, -1.25]'') = Assigned (PyStr (py ''[0.5, -1.25]''))"
  by (simp add: cell_defs)

lemma unclosed_vector_cell:
  "convert_cell 27 (py ''[0.5, -1.25'') = Assigned (PyStr (py ''[0.5, -1.25''))"
  by (simp add: cell_defs)

lemma long_title_cell: "convert_cell 24 (replicate 10001 97) = Long"
  by (simp add: convert_cell_eval numeric_columns_idx_def)

lemma long_vector_cell: "convert_cell 27 (replicate 10001 49) = Long"
  by (simp add: convert_cell_eval numeric_columns_idx_def)

lemma superscript_isnumeric: "isnumeric [178] \<and> \<not> isdecimal [178]"
  by (simp add: char_defs)

lemma superscript_cell: "convert_cell 5 [178] = CellRaised ValueError"
  by (simp add: convert_cell_def py_int_def superscript_isnumeric numeric_columns_idx_def)

lemma isdecimal_sevens: "0 < n \<Longrightarrow> isdecimal (replicate n 55)"
  by (simp add: isdecimal_def list_all_replicate decimal_char_def to_decimal_def decimal_starts_def)

lemma arabic_indic_862:
  "isdecimal [1640, 1638, 1634] \<and> decimal_value [1640, 1638, 1634] = 862"
  by (simp add: char_defs)

lemma isdecimal_862: "isdecimal (py ''862'')"
  by (simp add: py_def char_defs)

lemma decimal_value_862: "decimal_value (py ''862'') = 862"
  by (simp add: py_def char_defs)

lemma letters_not_numeric: "\<not> isnumeric (replicate 10001 97)"
  by (simp add: isnumeric_def list_all_replicate numeric_char_def decimal_char_def to_decimal_def
        decimal_starts_def other_numeric_def)

lemma sample_row_cols:
  "convert_cols 0 (tl sample_row) =
     Converted (movie_values (PyInt 30000000) (PyStr (py ''Toy Story''))
       @ [PyStr (py ''[0.5, -1.25]'')])"
  by (simp add: sample_row_def movie_row_cols budget_cell title_cell vector_cell)

lemma broken_vector_row_cols:
  "convert_cols 0 (tl broken_vector_row) =
     Converted (movie_values (PyInt 30000000) (PyStr (py ''Toy Story''))
       @ [PyStr (py ''[0.5, -1.25'')])"
  by (simp add: broken_vector_row_def movie_row_cols budget_cell title_cell unclosed_vector_cell)

lemma long_title_row_cols: "convert_cols 0 (tl long_title_row) = LongData"
  by (simp add: long_title_row_def movie_row_cols budget_cell long_title_cell)

lemma long_vector_row_cols: "convert_cols 0 (tl long_vector_row) = LongData"
  by (simp add: long_vector_row_def movie_row_cols budget_cell title_cell long_vector_cell)

lemma superscript_title_row_cols: "convert_cols 0 (tl superscript_title_row) = ColsRaised ValueError"
  by (simp add: superscript_title_row_def movie_row_cols superscript_cell)

lemma length_sample_rows:
  "length sample_row = 29" "length broken_vector_row = 29" "length long_title_row = 29"
  "length long_vector_row = 29" "length superscript_title_row = 29"
  "length quoted_vector_row = 29" "length (digits_budget_row n) = 29" "length short_row = 3"
  by (simp_all add: sample_row_def broken_vector_row_def long_title_row_def long_vector_row_def
        superscript_title_row_def quoted_vector_row_def digits_budget_row_def short_row_def
        length_movie_row)

lemma quoted_vector_replaced: "replace_chr 39 32 quoted_vector = py ''[ 0.5 ]''"
  by (simp add: quoted_vector_def replace_chr_def py_def)

lemma number_list_blanks: "number_list (py ''[ 0.5 ]'') = Some [py ''0.5'']"
  by (simp add: number_list_def strip_blanks_def is_blank_def is_number_def ascii_digit_def py_def)

lemma front_cells_converted:
  "convert_cols 0 (cells_before_budget @ py ''30000000'' # cells_before_title)
     = Converted (values_before_budget @ PyInt 30000000 # values_before_title)"
  by (simp add: convert_cols_append before_budget_converted before_title_converted
        length_segments budget_cell)

lemma all_but_vector_converted:
  "convert_cols 0
     (cells_before_budget @ py ''30000000'' # cells_before_title @ py ''Toy Story''
        # cells_after_title)
     = Converted (movie_values (PyInt 30000000) (PyStr (py ''Toy Story'')))"
  by (simp add: convert_cols_append before_budget_converted before_title_converted
        after_title_converted length_segments budget_cell title_cell movie_values_def)

lemma butlast_tl_movie_row:
  "butlast (tl (movie_row i b t v)) = cells_before_budget @ b # cells_before_title @ t # cells_after_title"
  by (simp add: movie_row_def butlast_append)

lemma tl_long_title_row:
  "tl long_title_row = (cells_before_budget @ py ''30000000'' # cells_before_title)
     @ replicate 10001 97 # (cells_after_title @ [py ''[0.5, -1.25]''])"
  by (simp add: long_title_row_def movie_row_def)

lemma tl_digits_budget_row:
  "tl (digits_budget_row n) = cells_before_budget
     @ replicate n 55 # (cells_before_title @ py ''Toy Story'' # cells_after_title
         @ [py ''[0.5, -1.25]''])"
  by (simp add: digits_budget_row_def movie_row_def)

lemma quoted_vector_row_cols:
  "convert_cols 0 (tl quoted_vector_row)
     = Converted (movie_values (PyInt 30000000) (PyStr (py ''Toy Story''))
         @ [PyStr (py ''[ 0.5 ]'')])"
proof -
  have "\<not> (isnumeric quoted_vector \<and> 27 \<in> set numeric_columns_idx)"
    by (simp add: numeric_columns_idx_def)
  from convert_cell_text [OF this]
  have "convert_cell 27 quoted_vector = Assigned (PyStr (py ''[ 0.5 ]''))"
    by (simp add: quoted_vector_replaced) (simp add: quoted_vector_def py_def)
  then show ?thesis
    by (simp add: quoted_vector_row_def movie_row_cols budget_cell title_cell)
qed

lemma digits_budget_cell:
  "0 < n \<Longrightarrow> convert_cell 5 (replicate n 55) =
     (if n \<le> int_max_str_digits then Assigned (PyInt (int (decimal_value (replicate n 55))))
      else CellRaised ValueError)"
  using convert_cell_decimal [OF isdecimal_sevens, of n 5]
  by (simp add: numeric_columns_idx_def)

lemma digits_budget_row_cols:
  "0 < n \<Longrightarrow> convert_cols 0 (tl (digits_budget_row n)) =
     (if n \<le> int_max_str_digits
      then Converted (movie_values (PyInt (int (decimal_value (replicate n 55))))
             (PyStr (py ''Toy Story'')) @ [PyStr (py ''[0.5, -1.25]'')])
      else ColsRaised ValueError)"
  by (simp add: digits_budget_row_def movie_row_cols digits_budget_cell title_cell vector_cell)

section \<open>The branches of the loop body\<close>

lemma loop_body_short: "length r < 29 \<Longrightarrow> loop_body bound lev s r = (Next, s)"
  by (simp add: loop_body_def)

lemma loop_body_break: "29 \<le> length r \<Longrightarrow> bound < it s \<Longrightarrow> loop_body bound lev s r = (Break, s)"
  by (simp add: loop_body_def)

lemma loop_body_long:
  "29 \<le> length r \<Longrightarrow> it s \<le> bound \<Longrightarrow> convert_cols 0 (tl r) = LongData \<Longrightarrow>
     loop_body bound lev s r = (Next, s\<lparr>insert_data := [], long_data_exists := True\<rparr>)"
  by (simp add: loop_body_def)

lemma loop_body_raised:
  "29 \<le> length r \<Longrightarrow> it s \<le> bound \<Longrightarrow> convert_cols 0 (tl r) = ColsRaised e \<Longrightarrow>
     loop_body bound lev s r = (Raise e, s\<lparr>insert_data := [], long_data_exists := False\<rparr>)"
  by (simp add: loop_body_def)

lemma loop_body_literal_raised:
  "29 \<le> length r \<Longrightarrow> it s \<le> bound \<Longrightarrow> convert_cols 0 (tl r) = Converted vs \<Longrightarrow>
   eval_last lev vs = Inl e \<Longrightarrow>
     loop_body bound lev s r = (Raise e, s\<lparr>insert_data := [], long_data_exists := False\<rparr>)"
  by (simp add: loop_body_def)

lemma loop_body_inserted:
  "29 \<le> length r \<Longrightarrow> it s \<le> bound \<Longrightarrow> convert_cols 0 (tl r) = Converted vs \<Longrightarrow>
   eval_last lev vs = Inr es \<Longrightarrow>
     loop_body bound lev s r =
       (Next, s\<lparr>insert_data := map (\<lambda>data. [data]) es, long_data_exists := False,
                 inserted := inserted s @ [map (\<lambda>data. [data]) es], it := it s + 1\<rparr>)"
  by (simp add: loop_body_def Let_def)

text \<open>Every run of the body ends in one of five ways.\<close>

lemma loop_body_cases:
  obtains
    (short) "length r < 29" "loop_body bound lev s r = (Next, s)"
  | (break) "29 \<le> length r" "bound < it s" "loop_body bound lev s r = (Break, s)"
  | (long) "29 \<le> length r" "it s \<le> bound" "convert_cols 0 (tl r) = LongData"
      "loop_body bound lev s r = (Next, s\<lparr>insert_data := [], long_data_exists := True\<rparr>)"
  | (raised) e where "29 \<le> length r" "it s \<le> bound"
      "loop_body bound lev s r = (Raise e, s\<lparr>insert_data := [], long_data_exists := False\<rparr>)"
  | (inserted) vs es where "29 \<le> length r" "it s \<le> bound"
      "convert_cols 0 (tl r) = Converted vs" "eval_last lev vs = Inr es"
      "loop_body bound lev s r =
        (Next, s\<lparr>insert_data := map (\<lambda>data. [data]) es, long_data_exists := False,
                  inserted := inserted s @ [map (\<lambda>data. [data]) es], it := it s + 1\<rparr>)"
proof (cases "length r < 29")
  case True
  then show ?thesis using short loop_body_short by blast
next
  case len: False
  show ?thesis
  proof (cases "bound < it s")
    case True
    then show ?thesis using break len loop_body_break by (metis not_less)
  next
    case it: False
    show ?thesis
    proof (cases "convert_cols 0 (tl r)")
      case (Converted vs)
      show ?thesis
      proof (cases "eval_last lev vs")
        case (Inl e)
        then show ?thesis
          using raised [of e] len it Converted loop_body_literal_raised [of r s bound vs lev e]
          by simp
      next
        case (Inr es)
        then show ?thesis
          using inserted [of vs es] len it Converted loop_body_inserted [of r s bound vs lev es]
          by simp
      qed
    next
      case LongData
      then show ?thesis using long len it loop_body_long [of r s bound lev] by simp
    next
      case (ColsRaised e)
      then show ?thesis using raised [of e] len it loop_body_raised [of r s bound e lev] by simp
    qed
  qed
qed

lemma loop_body_counts:
  assumes "loop_body bound lev s r = (c, s')"
  shows "it s' + length (inserted s) = it s + length (inserted s')"
  by (rule loop_body_cases [where r = r and bound = bound and lev = lev and s = s])
     (use assms in auto)

lemma loop_body_bounded:
  assumes "loop_body bound lev s r = (c, s')" and "it s \<le> bound + 1"
  shows "it s' \<le> bound + 1"
  by (rule loop_body_cases [where r = r and bound = bound and lev = lev and s = s])
     (use assms in auto)

lemma movie_loop_counts:
  "movie_loop bound lev s rows = (e, s', unread) \<Longrightarrow>
     it s' + length (inserted s) = it s + length (inserted s')"
proof (induction rows arbitrary: s)
  case Nil
  then show ?case by simp
next
  case (Cons r rs)
  obtain c s1 where b: "loop_body bound lev s r = (c, s1)" by (cases "loop_body bound lev s r")
  note step = loop_body_counts [OF b]
  show ?case
  proof (cases c)
    case Next
    with Cons.prems b have "movie_loop bound lev s1 rs = (e, s', unread)" by simp
    from Cons.IH [OF this] step show ?thesis by simp
  next
    case Break
    with Cons.prems b have "s' = s1" by simp
    with step show ?thesis by simp
  next
    case (Raise x)
    with Cons.prems b have "s' = s1" by simp
    with step show ?thesis by simp
  qed
qed

lemma movie_loop_bounded:
  "movie_loop bound lev s rows = (e, s', unread) \<Longrightarrow> it s \<le> bound + 1 \<Longrightarrow> it s' \<le> bound + 1"
proof (induction rows arbitrary: s)
  case Nil
  then show ?case by simp
next
  case (Cons r rs)
  obtain c s1 where b: "loop_body bound lev s r = (c, s1)" by (cases "loop_body bound lev s r")
  note step = loop_body_bounded [OF b Cons.prems(2)]
  show ?case
  proof (cases c)
    case Next
    with Cons.prems b have "movie_loop bound lev s1 rs = (e, s', unread)" by simp
    from Cons.IH [OF this step] show ?thesis .
  next
    case Break
    with Cons.prems b have "s' = s1" by simp
    with step show ?thesis by simp
  next
    case (Raise x)
    with Cons.prems b have "s' = s1" by simp
    with step show ?thesis by simp
  qed
qed

text \<open>A row the column loop does not convert to the end leaves no trace.\<close>

lemma unconverted_row_inserts_nothing:
  assumes "\<And>vs. convert_cols 0 (tl r) \<noteq> Converted vs"
  shows "inserted (snd (loop_body bound lev s r)) = inserted s \<and>
         it (snd (loop_body bound lev s r)) = it s"
proof (cases "convert_cols 0 (tl r)")
  case (Converted vs)
  with assms [of vs] show ?thesis by blast
next
  case LongData
  then show ?thesis by (simp add: loop_body_def)
next
  case (ColsRaised e)
  then show ?thesis by (simp add: loop_body_def)
qed

section \<open>Facts about the row loop\<close>

lemma loop_body_independent:
  assumes "it s = it t" and "inserted s = inserted t"
  shows "fst (loop_body bound lev s r) = fst (loop_body bound lev t r) \<and>
         it (snd (loop_body bound lev s r)) = it (snd (loop_body bound lev t r)) \<and>
         inserted (snd (loop_body bound lev s r)) = inserted (snd (loop_body bound lev t r))"
  using assms
  by (simp add: loop_body_def Let_def split: cols_outcome.splits sum.splits)

lemma movie_loop_independent:
  "it s = it t \<Longrightarrow> inserted s = inserted t \<Longrightarrow>
     report (movie_loop bound lev s rows) = report (movie_loop bound lev t rows)"
proof (induction rows arbitrary: s t)
  case Nil
  then show ?case by simp
next
  case (Cons r rs)
  obtain c s1 where bs: "loop_body bound lev s r = (c, s1)" by (cases "loop_body bound lev s r")
  note ind = loop_body_independent [OF Cons.prems, of bound lev r]
  from ind bs have "fst (loop_body bound lev t r) = c" by simp
  then obtain t1 where bt: "loop_body bound lev t r = (c, t1)"
    by (cases "loop_body bound lev t r") simp
  from ind bs bt have same: "it s1 = it t1" "inserted s1 = inserted t1" by simp_all
  show ?case
  proof (cases c)
    case Next
    with bs bt same Cons.IH [OF same] show ?thesis by simp
  next
    case Break
    with bs bt same show ?thesis by simp
  next
    case (Raise x)
    with bs bt same show ?thesis by simp
  qed
qed

lemma movie_loop_append:
  "movie_loop bound lev s (xs @ ys) =
    (case movie_loop bound lev s xs of
       (Exhausted, s', unread) \<Rightarrow> movie_loop bound lev s' ys
     | (Stopped, s', unread) \<Rightarrow> (Stopped, s', unread @ ys)
     | (Aborted e, s', unread) \<Rightarrow> (Aborted e, s', unread @ ys))"
proof (induction xs arbitrary: s)
  case Nil
  show ?case by simp
next
  case (Cons r rs)
  obtain c s1 where b: "loop_body bound lev s r = (c, s1)" by (cases "loop_body bound lev s r")
  show ?case
  proof (cases c)
    case Next
    with b Cons.IH [of s1] show ?thesis by simp
  next
    case Break
    with b show ?thesis by simp
  next
    case (Raise x)
    with b show ?thesis by simp
  qed
qed

lemma loop_body_accepts:
  assumes "accepts lev r" and "it s \<le> bound"
  shows "\<exists>s'. loop_body bound lev s r = (Next, s') \<and> it s' = it s + 1 \<and>
           length (inserted s') = length (inserted s) + 1"
proof -
  from assms(1) obtain vs es where len: "29 \<le> length r"
    and cols: "convert_cols 0 (tl r) = Converted vs" and ev: "eval_last lev vs = Inr es"
    by (auto simp: accepts_def split: cols_outcome.splits sum.splits)
  from loop_body_inserted [OF len assms(2) cols ev] show ?thesis by simp
qed

lemma accepted_rows_run:
  "list_all (accepts lev) rows \<Longrightarrow> it s + length rows \<le> bound + 1 \<Longrightarrow>
     \<exists>s'. movie_loop bound lev s rows = (Exhausted, s', []) \<and> it s' = it s + length rows \<and>
          length (inserted s') = length (inserted s) + length rows"
proof (induction rows arbitrary: s)
  case Nil
  then show ?case by simp
next
  case (Cons r rs)
  from Cons.prems have acc: "accepts lev r" and rest: "list_all (accepts lev) rs"
    and le: "it s \<le> bound" by simp_all
  from loop_body_accepts [OF acc le] obtain s1 where
    b: "loop_body bound lev s r = (Next, s1)" and i1: "it s1 = it s + 1"
    and n1: "length (inserted s1) = length (inserted s) + 1" by blast
  from Cons.prems i1 have "it s1 + length rs \<le> bound + 1" by simp
  from Cons.IH [OF rest this] obtain s' where
    "movie_loop bound lev s1 rs = (Exhausted, s', [])" "it s' = it s1 + length rs"
    "length (inserted s') = length (inserted s1) + length rs" by blast
  with b i1 n1 show ?case by simp
qed

lemma skipped_row:
  assumes "skips r" and "it s \<le> bound"
  shows "report (movie_loop bound lev s (r # rows)) = report (movie_loop bound lev s rows)"
proof (cases "length r < 29")
  case True
  then show ?thesis by (simp add: loop_body_short)
next
  case False
  with assms(1) have cols: "convert_cols 0 (tl r) = LongData" and len: "29 \<le> length r"
    by (auto simp: skips_def split: cols_outcome.splits)
  have "movie_loop bound lev s (r # rows) =
      movie_loop bound lev (s\<lparr>insert_data := [], long_data_exists := True\<rparr>) rows"
    by (simp add: loop_body_long [OF len assms(2) cols])
  moreover have "report (movie_loop bound lev (s\<lparr>insert_data := [], long_data_exists := True\<rparr>) rows)
      = report (movie_loop bound lev s rows)"
    by (rule movie_loop_independent) simp_all
  ultimately show ?thesis by simp
qed

lemma skipped_rows:
  "list_all skips rejected \<Longrightarrow> it s \<le> bound \<Longrightarrow>
     report (movie_loop bound lev s (rejected @ rows)) = report (movie_loop bound lev s rows)"
proof (induction rejected)
  case Nil
  show ?case by simp
next
  case (Cons r rs)
  then have "skips r" and "list_all skips rs" by simp_all
  with Cons show ?case using skipped_row [of r s bound lev "rs @ rows"] by simp
qed

lemma break_at_bound:
  "29 \<le> length r \<Longrightarrow> bound < it s \<Longrightarrow> movie_loop bound lev s (r # rows) = (Stopped, s, rows)"
  by (simp add: loop_body_break)

lemma stops_after_bound:
  assumes acc: "list_all (accepts lev) rows" and len: "bound + 2 \<le> length rows"
  shows "\<exists>s'. movie_loop bound lev start rows = (Stopped, s', drop (bound + 2) rows) \<and>
           it s' = bound + 1 \<and> length (inserted s') = bound + 1"
proof -
  let ?head = "take (bound + 1) rows"
  let ?r = "rows ! (bound + 1)"
  let ?tail = "drop (bound + 2) rows"
  from len have split: "rows = ?head @ ?r # ?tail"
    using id_take_nth_drop [of "bound + 1" rows] by simp
  from acc have front: "list_all (accepts lev) ?head"
    by (auto simp: list_all_iff dest: in_set_takeD)
  from acc len have "accepts lev ?r" by (simp add: list_all_length)
  then have r: "29 \<le> length ?r" by (simp add: accepts_def)
  from len have "it (start :: 'a vars) + length ?head \<le> bound + 1" by (simp add: start_def)
  from accepted_rows_run [OF front this] obtain s1 where
    run: "movie_loop bound lev start ?head = (Exhausted, s1, [])"
    and i1: "it s1 = bound + 1" and n1: "length (inserted s1) = bound + 1"
    using len by (auto simp: start_def)
  from i1 have "bound < it s1" by simp
  from break_at_bound [OF r this] have "movie_loop bound lev s1 (?r # ?tail) = (Stopped, s1, ?tail)" .
  with run have "movie_loop bound lev start (?head @ ?r # ?tail) = (Stopped, s1, ?tail)"
    by (simp add: movie_loop_append)
  with split i1 n1 show ?thesis by metis
qed

section \<open>The sample rows in the loop body\<close>

lemma sample_row_eval_last:
  "eval_last number_list (movie_values (PyInt 30000000) (PyStr (py ''Toy Story'')) @ [PyStr (py ''[0.5, -1.25]'')])
     = Inr (map Scalar (movie_values (PyInt 30000000) (PyStr (py ''Toy Story''))) @ [Parsed [py ''0.5'', py ''-1.25'']])"
  by (simp add: eval_last_def number_list_sample)

lemma broken_vector_eval_last:
  "eval_last number_list (movie_values (PyInt 30000000) (PyStr (py ''Toy Story'')) @ [PyStr (py ''[0.5, -1.25'')])
     = Inl LiteralEvalError"
  by (simp add: eval_last_def number_list_unclosed)

lemma sample_row_body:
  "it s \<le> bound \<Longrightarrow>
   loop_body bound number_list s sample_row =
     (Next, s\<lparr>insert_data := sample_record, long_data_exists := False,
               inserted := inserted s @ [sample_record], it := it s + 1\<rparr>)"
  using loop_body_inserted [OF _ _ sample_row_cols sample_row_eval_last, of s bound]
  by (simp add: length_sample_rows sample_record_def)

lemma broken_vector_row_body:
  "it s \<le> bound \<Longrightarrow>
   loop_body bound number_list s broken_vector_row =
     (Raise LiteralEvalError, s\<lparr>insert_data := [], long_data_exists := False\<rparr>)"
  using loop_body_literal_raised [OF _ _ broken_vector_row_cols broken_vector_eval_last, of s bound]
  by (simp add: length_sample_rows)

lemma sample_row_accepts: "accepts number_list sample_row"
  by (simp add: accepts_def length_sample_rows sample_row_cols sample_row_eval_last)

lemma skips_sample_rows: "skips short_row" "skips long_title_row" "skips long_vector_row"
  by (simp_all add: skips_def length_sample_rows long_title_row_cols long_vector_row_cols)

lemma sample_rows_accepted: "list_all (accepts number_list) (replicate n sample_row)"
  by (simp add: list_all_replicate sample_row_accepts)

section \<open>Short rows\<close>

lemma length_movie_feature_fields: "length movie_feature_fields = 28"
  by (simp add: movie_feature_fields_def)

text \<open>
  C6. A row with fewer than 29 cells, the leading index cell counted, that is with
  fewer cells than the 28 fields of the schema and the index together, is skipped at line
  153 whatever the counter says: no call of insert is made and no variable changes.
\<close>

theorem short_row_skipped:
  "length movie_feature < Suc (length movie_feature_fields) \<Longrightarrow>
     loop_body bound literal_eval s movie_feature = (Next, s) \<and>
     movie_loop bound literal_eval s (movie_feature # rest) = movie_loop bound literal_eval s rest"
  by (simp add: loop_body_def length_movie_feature_fields)

theorem short_row_skipped_witness:
  "length short_row < Suc (length movie_feature_fields) \<and>
   loop_body 20000 number_list start short_row = (Next, start) \<and>
   movie_loop 20000 number_list start [short_row] = (Exhausted, start, [])"
  using short_row_skipped [of short_row 20000 number_list start "[]"]
  by (simp add: short_row_def length_movie_feature_fields)

section \<open>Which cells become integers\<close>

lemma upt_28: "[0..<28] = [0,1,2,3,4,5,6,7,8,9,10,11,12,13,14,15,16,17,18,19,20,21,22,23,24,25,26,27]"
  by (simp add: upt_rec)

lemma int64_positions:
  "filter (\<lambda>i. snd (movie_feature_fields ! i) = INT64) [0..<28] = numeric_columns_idx"
  unfolding upt_28 by (simp add: movie_feature_fields_def numeric_columns_idx_def)

lemma allowlist_is_int64:
  assumes "col < 28"
  shows "(col \<in> set numeric_columns_idx) = (snd (movie_feature_fields ! col) = INT64)"
proof -
  have "set numeric_columns_idx = {i. i < 28 \<and> snd (movie_feature_fields ! i) = INT64}"
    unfolding int64_positions [symmetric] by auto
  with assms show ?thesis by simp
qed

lemma convert_cell_Assigned:
  assumes "convert_cell col d = Assigned v"
  shows "v = (if isdecimal d \<and> col \<in> set numeric_columns_idx
              then PyInt (int (decimal_value d)) else PyStr (replace_chr 39 32 d))"
proof (cases "isnumeric d \<and> col \<in> set numeric_columns_idx")
  case True
  with assms obtain n where "py_int d = Some n" and "v = PyInt n"
    by (auto simp: convert_cell_def split: option.splits)
  then show ?thesis using True
    by (auto simp: py_int_def split: if_splits)
next
  case False
  then have "\<not> (isdecimal d \<and> col \<in> set numeric_columns_idx)"
    using isdecimal_isnumeric by blast
  moreover from convert_cell_text [OF False] assms
  have "v = PyStr (replace_chr 39 32 d)" by (simp split: if_splits)
  ultimately show ?thesis by simp
qed

lemma accepted_record:
  assumes acc: "accepts lev r" and le: "it s \<le> bound" and j: "j < length (tl r) - 1"
  shows "insert_data (snd (loop_body bound lev s r)) ! j =
           [Scalar (if isdecimal (tl r ! j) \<and> j \<in> set numeric_columns_idx
                    then PyInt (int (decimal_value (tl r ! j)))
                    else PyStr (replace_chr 39 32 (tl r ! j)))] \<and>
         last (inserted (snd (loop_body bound lev s r)))
           = insert_data (snd (loop_body bound lev s r))"
proof -
  from acc obtain vs es where len: "29 \<le> length r"
    and cols: "convert_cols 0 (tl r) = Converted vs" and ev: "eval_last lev vs = Inr es"
    by (auto simp: accepts_def split: cols_outcome.splits sum.splits)
  from convert_cols_nth [OF cols] have lv: "length vs = length (tl r)"
    and cell: "convert_cell j (tl r ! j) = Assigned (vs ! j)" using j by auto
  from ev obtain x where es: "es = map Scalar (butlast vs) @ [Parsed x]"
    by (auto simp: eval_last_def split: if_splits scalar.splits option.splits)
  from j lv have "es ! j = Scalar (vs ! j)"
    by (simp add: es nth_append nth_butlast)
  moreover from j lv have "j < length es" by (simp add: es)
  ultimately have "map (\<lambda>data. [data]) es ! j = [Scalar (vs ! j)]" by simp
  with convert_cell_Assigned [OF cell] loop_body_inserted [OF len le cols ev]
  show ?thesis by simp
qed

lemma capped_digits_end_run:
  assumes "29 \<le> length r" and "it s \<le> bound" and "tl r = pre @ d # post"
    and "convert_cols 0 pre = Converted ws" and "isdecimal d"
    and "length pre \<in> set numeric_columns_idx" and "int_max_str_digits < length d"
  shows "loop_body bound lev s r = (Raise ValueError, s\<lparr>insert_data := [], long_data_exists := False\<rparr>)"
proof -
  from assms(5-7) have "convert_cell (length pre) d = CellRaised ValueError"
    by (simp add: convert_cell_decimal)
  from raising_cell_ends_loop [OF this assms(4)] assms(3)
  have "convert_cols 0 (tl r) = ColsRaised ValueError" by simp
  from loop_body_raised [OF assms(1,2) this] show ?thesis .
qed

lemma sample_row_cells:
  "tl sample_row ! 8 = py ''862''" "tl sample_row ! 17 = py ''815040000''"
  "length (tl sample_row) = 28"
  by (simp_all add: sample_row_def movie_row_def cells_before_budget_def cells_before_title_def
        cells_after_title_def)

lemma isdecimal_timestamp: "isdecimal (py ''815040000'')"
  by (simp add: py_def char_defs)

text \<open>
  C1, as the code has it. Line 157 drops the index cell, and the cell at position \<open>col\<close>
  of what is left is stored as an integer exactly when it is a non-empty string of decimal
  digits (the strings \<^verbatim>\<open>str.isdecimal\<close> accepts) of at most 4300 characters and
  \<open>col\<close> is one of 5, 8, 12, 19, 20, 25 and 26, the positions of the INT64 fields of the
  schema. In every row that is inserted, the entry at each position before the last is
  the integer the digits spell when the cell is a string of decimal digits at one of the
  seven positions, and the cell with its single quotes replaced otherwise; the record
  built this way is the one line 185 inserts. A string of decimal digits at any other
  position goes the way of a text cell: it is never an integer, it is stored as the string
  it is (it holds no quote to replace) unless it is longer than 10000 characters, when
  line 173 leaves the loop. A string of more than 4300 decimal digits at one of the seven
  positions is not stored as an integer: \<^verbatim>\<open>int\<close> converts no more than 4300 digits and
  raises \<^verbatim>\<open>ValueError\<close> at line 168, which ends the run with nothing inserted.
\<close>

theorem coercion_position_gated:
  "((\<exists>n. convert_cell col data = Assigned (PyInt n)) =
      (isdecimal data \<and> length data \<le> int_max_str_digits \<and> col \<in> set numeric_columns_idx)) \<and>
   set numeric_columns_idx = {5, 8, 12, 19, 20, 25, 26} \<and>
   (col < length movie_feature_fields \<longrightarrow>
      (col \<in> set numeric_columns_idx) = (snd (movie_feature_fields ! col) = INT64)) \<and>
   (accepts lev r \<and> it s \<le> bound \<and> j < length (tl r) - 1 \<longrightarrow>
      insert_data (snd (loop_body bound lev s r)) ! j =
        [Scalar (if isdecimal (tl r ! j) \<and> j \<in> set numeric_columns_idx
                 then PyInt (int (decimal_value (tl r ! j)))
                 else PyStr (replace_chr 39 32 (tl r ! j)))] \<and>
      last (inserted (snd (loop_body bound lev s r)))
        = insert_data (snd (loop_body bound lev s r))) \<and>
   (isdecimal data \<and> col \<notin> set numeric_columns_idx \<longrightarrow>
      replace_chr 39 32 data = data \<and>
      convert_cell col data = (if 10000 < length data then Long else Assigned (PyStr data))) \<and>
   (29 \<le> length r \<and> it s \<le> bound \<and> tl r = pre @ data # post \<and>
    convert_cols 0 pre = Converted ws \<and> isdecimal data \<and>
    length pre \<in> set numeric_columns_idx \<and> int_max_str_digits < length data \<longrightarrow>
      loop_body bound lev s r
        = (Raise ValueError, s\<lparr>insert_data := [], long_data_exists := False\<rparr>))"
proof (intro conjI impI)
  show "(\<exists>n. convert_cell col data = Assigned (PyInt n)) =
      (isdecimal data \<and> length data \<le> int_max_str_digits \<and> col \<in> set numeric_columns_idx)"
    using convert_cell_PyInt [of col data] convert_cell_decimal [of data col] by auto
  show "set numeric_columns_idx = {5, 8, 12, 19, 20, 25, 26}"
    by (simp add: numeric_columns_idx_def)
next
  assume "col < length movie_feature_fields"
  then show "(col \<in> set numeric_columns_idx) = (snd (movie_feature_fields ! col) = INT64)"
    by (simp add: length_movie_feature_fields allowlist_is_int64)
next
  assume a: "accepts lev r \<and> it s \<le> bound \<and> j < length (tl r) - 1"
  then have *: "accepts lev r" "it s \<le> bound" "j < length (tl r) - 1" by simp_all
  from accepted_record [OF *] show "insert_data (snd (loop_body bound lev s r)) ! j =
        [Scalar (if isdecimal (tl r ! j) \<and> j \<in> set numeric_columns_idx
                 then PyInt (int (decimal_value (tl r ! j)))
                 else PyStr (replace_chr 39 32 (tl r ! j)))]" by simp
  from accepted_record [OF *] show "last (inserted (snd (loop_body bound lev s r)))
        = insert_data (snd (loop_body bound lev s r))" by simp
next
  assume a: "isdecimal data \<and> col \<notin> set numeric_columns_idx"
  then show "replace_chr 39 32 data = data" by (simp add: replace_decimal)
  from a have "\<not> (isnumeric data \<and> col \<in> set numeric_columns_idx)" by simp
  from convert_cell_text [OF this] a show
    "convert_cell col data = (if 10000 < length data then Long else Assigned (PyStr data))"
    by (simp add: replace_decimal)
next
  assume a: "29 \<le> length r \<and> it s \<le> bound \<and> tl r = pre @ data # post \<and>
    convert_cols 0 pre = Converted ws \<and> isdecimal data \<and>
    length pre \<in> set numeric_columns_idx \<and> int_max_str_digits < length data"
  show "loop_body bound lev s r
        = (Raise ValueError, s\<lparr>insert_data := [], long_data_exists := False\<rparr>)"
    using a
    by (intro capped_digits_end_run [where pre = pre and post = post and ws = ws and d = data])
       simp_all
qed

theorem coercion_position_gated_witness:
  "8 < length movie_feature_fields \<and> snd (movie_feature_fields ! 8) = INT64 \<and>
   (\<exists>n. convert_cell 8 [1640, 1638, 1634] = Assigned (PyInt n)) \<and>
   isdecimal (py ''815040000'') \<and> 17 \<notin> set numeric_columns_idx \<and>
   convert_cell 17 (py ''815040000'') = Assigned (PyStr (py ''815040000'')) \<and>
   accepts number_list sample_row \<and> it (start :: pystr list vars) \<le> 20000 \<and>
   8 < length (tl sample_row) - 1 \<and> 17 < length (tl sample_row) - 1 \<and>
   insert_data (snd (loop_body 20000 number_list start sample_row)) ! 8 = [Scalar (PyInt 862)] \<and>
   insert_data (snd (loop_body 20000 number_list start sample_row)) ! 17
     = [Scalar (PyStr (py ''815040000''))] \<and>
   29 \<le> length (digits_budget_row 4301) \<and>
   tl (digits_budget_row 4301) = cells_before_budget
     @ replicate 4301 55 # (cells_before_title @ py ''Toy Story'' # cells_after_title
         @ [py ''[0.5, -1.25]'']) \<and>
   convert_cols 0 cells_before_budget = Converted values_before_budget \<and>
   isdecimal (replicate 4301 55) \<and> length cells_before_budget \<in> set numeric_columns_idx \<and>
   int_max_str_digits < length (replicate 4301 (55 :: nat)) \<and>
   loop_body 20000 number_list start (digits_budget_row 4301)
     = (Raise ValueError, start\<lparr>insert_data := [], long_data_exists := False\<rparr>)"
proof -
  have f: "8 < length movie_feature_fields" "snd (movie_feature_fields ! 8) = INT64"
    by (simp_all add: movie_feature_fields_def)
  have s0: "it (start :: pystr list vars) \<le> 20000" by (simp add: start_def)
  have n17: "17 \<notin> set numeric_columns_idx" and n8: "8 \<in> set numeric_columns_idx"
    and n5: "length cells_before_budget \<in> set numeric_columns_idx"
    by (simp_all add: numeric_columns_idx_def length_segments)
  have j: "8 < length (tl sample_row) - 1" "17 < length (tl sample_row) - 1"
    by (simp_all add: length_sample_rows)
  have ar: "isdecimal [1640, 1638, 1634]" "length [1640, 1638, 1634 :: nat] \<le> int_max_str_digits"
    by (simp_all add: arabic_indic_862 int_max_str_digits_def)
  from coercion_position_gated [of 8 "[1640, 1638, 1634]" number_list sample_row start 20000 8
      "[]" "[]" "[]", THEN conjunct1] ar n8
  have c1: "\<exists>n. convert_cell 8 [1640, 1638, 1634] = Assigned (PyInt n)" by blast
  from coercion_position_gated [of 17 "py ''815040000''" number_list sample_row start 20000 17
      "[]" "[]" "[]", THEN conjunct2, THEN conjunct2, THEN conjunct2, THEN conjunct2,
      THEN conjunct1]
    isdecimal_timestamp n17
  have "convert_cell 17 (py ''815040000'')
      = (if 10000 < length (py ''815040000'') then Long
         else Assigned (PyStr (py ''815040000'')))"
    by blast
  then have c2: "convert_cell 17 (py ''815040000'') = Assigned (PyStr (py ''815040000''))"
    by (simp add: py_def)
  from coercion_position_gated [of 8 "[1640, 1638, 1634]" number_list sample_row start 20000 8
      "[]" "[]" "[]", THEN conjunct2, THEN conjunct2, THEN conjunct2, THEN conjunct1]
    sample_row_accepts s0 j(1)
  have "insert_data (snd (loop_body 20000 number_list start sample_row)) ! 8 =
        [Scalar (if isdecimal (tl sample_row ! 8) \<and> 8 \<in> set numeric_columns_idx
                 then PyInt (int (decimal_value (tl sample_row ! 8)))
                 else PyStr (replace_chr 39 32 (tl sample_row ! 8)))]"
    by blast
  then have c3: "insert_data (snd (loop_body 20000 number_list start sample_row)) ! 8
      = [Scalar (PyInt 862)]"
    by (simp add: sample_row_cells isdecimal_862 decimal_value_862 n8)
  from coercion_position_gated [of 17 "py ''815040000''" number_list sample_row start 20000 17
      "[]" "[]" "[]", THEN conjunct2, THEN conjunct2, THEN conjunct2, THEN conjunct1]
    sample_row_accepts s0 j(2)
  have "insert_data (snd (loop_body 20000 number_list start sample_row)) ! 17 =
        [Scalar (if isdecimal (tl sample_row ! 17) \<and> 17 \<in> set numeric_columns_idx
                 then PyInt (int (decimal_value (tl sample_row ! 17)))
                 else PyStr (replace_chr 39 32 (tl sample_row ! 17)))]"
    by blast
  then have c4: "insert_data (snd (loop_body 20000 number_list start sample_row)) ! 17
     = [Scalar (PyStr (py ''815040000''))]"
    by (simp add: sample_row_cells n17 replace_decimal [OF isdecimal_timestamp])
  have l: "29 \<le> length (digits_budget_row 4301)" by (simp add: length_sample_rows)
  have d: "isdecimal (replicate 4301 55)" by (simp add: isdecimal_sevens)
  have m: "int_max_str_digits < length (replicate 4301 (55 :: nat))"
    by (simp add: int_max_str_digits_def)
  from coercion_position_gated
    [of 5 "replicate 4301 55" number_list "digits_budget_row 4301" start 20000 5
        cells_before_budget
        "cells_before_title @ py ''Toy Story'' # cells_after_title @ [py ''[0.5, -1.25]'']"
        values_before_budget, THEN conjunct2, THEN conjunct2, THEN conjunct2, THEN conjunct2,
        THEN conjunct2]
    l s0 tl_digits_budget_row [of 4301] before_budget_converted d n5 m
  have c5: "loop_body 20000 number_list start (digits_budget_row 4301)
     = (Raise ValueError, start\<lparr>insert_data := [], long_data_exists := False\<rparr>)"
    by blast
  from f c1 isdecimal_timestamp n17 c2 sample_row_accepts s0 j c3 c4 l
    tl_digits_budget_row [of 4301] before_budget_converted d n5 m c5
  show ?thesis by blast
qed

text \<open>
  The specification has every digit-only cell at one of the seven positions coerced to an
  integer. The budget cell made of 4301 times the digit seven, at position 5 once the
  index is dropped, is not: \<^verbatim>\<open>int\<close> raises \<^verbatim>\<open>ValueError\<close> on it and the run ends.
\<close>

theorem long_digit_cell_not_coerced:
  "isdecimal (replicate 4301 55) \<and> 5 \<in> set numeric_columns_idx \<and>
   int_max_str_digits < length (replicate 4301 (55 :: nat)) \<and>
   convert_cell 5 (replicate 4301 55) = CellRaised ValueError \<and>
   tl (digits_budget_row 4301) ! 5 = replicate 4301 55 \<and>
   loop_body 20000 number_list start (digits_budget_row 4301) = (Raise ValueError, start)"
proof -
  have s0: "it (start :: pystr list vars) \<le> 20000" by (simp add: start_def)
  have e: "start\<lparr>insert_data := [], long_data_exists := False\<rparr> = (start :: pystr list vars)"
    by (simp add: start_def)
  have c: "convert_cell 5 (replicate 4301 55) = CellRaised ValueError"
    by (simp add: digits_budget_cell int_max_str_digits_def)
  have r: "convert_cols 0 (tl (digits_budget_row 4301)) = ColsRaised ValueError"
    by (simp add: digits_budget_row_cols int_max_str_digits_def)
  have b: "loop_body 20000 number_list start (digits_budget_row 4301) = (Raise ValueError, start)"
    using loop_body_raised [OF _ s0 r, of number_list] e by (simp add: length_sample_rows)
  have n: "tl (digits_budget_row 4301) ! 5 = replicate 4301 55"
    by (simp add: tl_digits_budget_row nth_append length_segments)
  from c b n show ?thesis
    by (simp add: isdecimal_sevens numeric_columns_idx_def int_max_str_digits_def)
qed

lemma long_flag_of_body:
  assumes "29 \<le> length r" and "it s \<le> bound"
  shows "long_data_exists (snd (loop_body bound lev s r)) = (convert_cols 0 (tl r) = LongData)"
proof (cases "convert_cols 0 (tl r)")
  case (Converted vs)
  show ?thesis
  proof (cases "eval_last lev vs")
    case (Inl e)
    from loop_body_literal_raised [OF assms Converted Inl] Converted show ?thesis by simp
  next
    case (Inr es)
    from loop_body_inserted [OF assms Converted Inr] Converted show ?thesis by simp
  qed
next
  case LongData
  from loop_body_long [OF assms LongData] LongData show ?thesis by simp
next
  case (ColsRaised e)
  from loop_body_raised [OF assms ColsRaised] ColsRaised show ?thesis by simp
qed

lemma long_cell_of_row:
  assumes "convert_cols 0 cells = LongData"
  shows "\<exists>j<length cells. \<not> (isnumeric (cells ! j) \<and> j \<in> set numeric_columns_idx) \<and>
           10000 < length (cells ! j)"
proof -
  from convert_cols_LongData [OF assms] obtain j where "j < length cells"
    and "convert_cell j (cells ! j) = Long" by auto
  with convert_cell_Long [of j "cells ! j"] show ?thesis by blast
qed

lemma long_title_row_body:
  "it s \<le> bound \<Longrightarrow>
   loop_body bound lev s long_title_row = (Next, s\<lparr>insert_data := [], long_data_exists := True\<rparr>)"
  using loop_body_long [OF _ _ long_title_row_cols, of s bound lev]
  by (simp add: length_sample_rows)

text \<open>
  C9, as the code has it. A non-empty string of decimal digits at one of the positions 5,
  8, 12, 19, 20, 25 and 26 goes through the branch of line 168, which neither replaces a
  character nor looks at the length: when it has at most 4300 digits it is stored as the
  integer it spells, and when it has more, \<^verbatim>\<open>int\<close> raises \<^verbatim>\<open>ValueError\<close>; the bound
  10000 plays no part. When the column loop leaves at line 173, and so whenever the body
  ends with \<^verbatim>\<open>long_data_exists\<close> set, the cell it left at went through the other branch
  (it is not a numeric cell at one of these positions) and is longer than 10000
  characters: no row is skipped at line 178 on account of a cell of digits at one of the
  seven positions.
\<close>

theorem allowlisted_digits_skip_text_checks:
  "(isdecimal d \<and> col \<in> set numeric_columns_idx \<longrightarrow>
      convert_cell col d =
        (if length d \<le> int_max_str_digits then Assigned (PyInt (int (decimal_value d)))
         else CellRaised ValueError)) \<and>
   (convert_cols 0 cells = LongData \<longrightarrow>
      (\<exists>j<length cells. \<not> (isnumeric (cells ! j) \<and> j \<in> set numeric_columns_idx) \<and>
         10000 < length (cells ! j))) \<and>
   (29 \<le> length r \<and> it s \<le> bound \<and> long_data_exists (snd (loop_body bound lev s r)) \<longrightarrow>
      (\<exists>j<length (tl r). \<not> (isnumeric (tl r ! j) \<and> j \<in> set numeric_columns_idx) \<and>
         10000 < length (tl r ! j)))"
proof (intro conjI impI)
  assume "isdecimal d \<and> col \<in> set numeric_columns_idx"
  then show "convert_cell col d =
        (if length d \<le> int_max_str_digits then Assigned (PyInt (int (decimal_value d)))
         else CellRaised ValueError)"
    by (simp add: convert_cell_decimal)
next
  assume "convert_cols 0 cells = LongData"
  then show "\<exists>j<length cells. \<not> (isnumeric (cells ! j) \<and> j \<in> set numeric_columns_idx) \<and>
         10000 < length (cells ! j)"
    by (rule long_cell_of_row)
next
  assume a: "29 \<le> length r \<and> it s \<le> bound \<and> long_data_exists (snd (loop_body bound lev s r))"
  then have "convert_cols 0 (tl r) = LongData"
    using long_flag_of_body [of r s bound lev] by simp
  then show "\<exists>j<length (tl r). \<not> (isnumeric (tl r ! j) \<and> j \<in> set numeric_columns_idx) \<and>
         10000 < length (tl r ! j)"
    by (rule long_cell_of_row)
qed

theorem allowlisted_digits_skip_text_checks_witness:
  "isdecimal (replicate 4300 55) \<and> 5 \<in> set numeric_columns_idx \<and>
   convert_cell 5 (replicate 4300 55)
     = Assigned (PyInt (int (decimal_value (replicate 4300 55)))) \<and>
   convert_cols 0 (tl long_title_row) = LongData \<and>
   (\<exists>j<length (tl long_title_row).
      \<not> (isnumeric (tl long_title_row ! j) \<and> j \<in> set numeric_columns_idx) \<and>
      10000 < length (tl long_title_row ! j)) \<and>
   29 \<le> length long_title_row \<and> it (start :: pystr list vars) \<le> 20000 \<and>
   long_data_exists (snd (loop_body 20000 number_list start long_title_row))"
proof -
  have five: "5 \<in> set numeric_columns_idx" by (simp add: numeric_columns_idx_def)
  have d: "isdecimal (replicate 4300 55)" by (simp add: isdecimal_sevens)
  have n: "length (replicate 4300 (55 :: nat)) \<le> int_max_str_digits"
    by (simp add: int_max_str_digits_def)
  have len: "29 \<le> length long_title_row" by (simp add: length_sample_rows)
  have s0: "it (start :: pystr list vars) \<le> 20000" by (simp add: start_def)
  have f: "long_data_exists (snd (loop_body 20000 number_list start long_title_row))"
    by (simp add: long_title_row_body [OF s0])
  from allowlisted_digits_skip_text_checks
    [of "replicate 4300 55" 5 "tl long_title_row" long_title_row start 20000 number_list,
     THEN conjunct1] d five n
  have c1: "convert_cell 5 (replicate 4300 55)
     = Assigned (PyInt (int (decimal_value (replicate 4300 55))))"
    by simp
  from allowlisted_digits_skip_text_checks
    [of "replicate 4300 55" 5 "tl long_title_row" long_title_row start 20000 number_list,
     THEN conjunct2, THEN conjunct1] long_title_row_cols
  have c2: "\<exists>j<length (tl long_title_row).
      \<not> (isnumeric (tl long_title_row ! j) \<and> j \<in> set numeric_columns_idx) \<and>
      10000 < length (tl long_title_row ! j)"
    by blast
  from allowlisted_digits_skip_text_checks
    [of "replicate 4300 55" 5 "tl long_title_row" long_title_row start 20000 number_list,
     THEN conjunct2, THEN conjunct2] len s0 f
  have c3: "\<exists>j<length (tl long_title_row).
      \<not> (isnumeric (tl long_title_row ! j) \<and> j \<in> set numeric_columns_idx) \<and>
      10000 < length (tl long_title_row ! j)"
    by blast
  from d five c1 long_title_row_cols c3 len s0 f show ?thesis by blast
qed

text \<open>
  The specification has a digit-only cell at one of the seven positions coerced to an
  integer whatever its length, over 10000 characters included. A budget of 10001 times
  the digit seven is not coerced: \<^verbatim>\<open>int\<close> raises \<^verbatim>\<open>ValueError\<close> on it and the run ends.
\<close>

theorem ten_thousand_digits_not_coerced:
  "isdecimal (replicate 10001 55) \<and> 5 \<in> set numeric_columns_idx \<and>
   10000 < length (replicate 10001 (55 :: nat)) \<and>
   convert_cell 5 (replicate 10001 55) = CellRaised ValueError \<and>
   tl (digits_budget_row 10001) ! 5 = replicate 10001 55 \<and>
   loop_body 20000 number_list start (digits_budget_row 10001) = (Raise ValueError, start)"
proof -
  have s0: "it (start :: pystr list vars) \<le> 20000" by (simp add: start_def)
  have e: "start\<lparr>insert_data := [], long_data_exists := False\<rparr> = (start :: pystr list vars)"
    by (simp add: start_def)
  have c: "convert_cell 5 (replicate 10001 55) = CellRaised ValueError"
    by (simp add: digits_budget_cell int_max_str_digits_def)
  have r: "convert_cols 0 (tl (digits_budget_row 10001)) = ColsRaised ValueError"
    by (simp add: digits_budget_row_cols int_max_str_digits_def)
  have b: "loop_body 20000 number_list start (digits_budget_row 10001) = (Raise ValueError, start)"
    using loop_body_raised [OF _ s0 r, of number_list] e by (simp add: length_sample_rows)
  have n: "tl (digits_budget_row 10001) ! 5 = replicate 10001 55"
    by (simp add: tl_digits_budget_row nth_append length_segments)
  from c b n show ?thesis
    by (simp add: isdecimal_sevens numeric_columns_idx_def)
qed

section \<open>The bound on the counter\<close>

text \<open>
  C2, as the code has it. With the bound \<open>bound\<close> (20000 in the script) and a source of
  \<open>bound + 5\<close> rows that the body accepts, the loop inserts exactly \<open>bound + 1\<close> rows:
  line 155 compares with a strict \<open>>\<close>. It then takes row \<open>bound + 2\<close> from the reader,
  checks its length at line 152 and leaves at line 156 without converting it. The rows the
  reader still holds are the last three.
\<close>

theorem bound_plus_five_rows:
  assumes "list_all (accepts lev) rows" and "length rows = bound + 5"
  shows "\<exists>s'. movie_loop bound lev start rows = (Stopped, s', drop (bound + 2) rows) \<and>
           it s' = bound + 1 \<and> length (inserted s') = bound + 1 \<and>
           length (drop (bound + 2) rows) = 3"
proof -
  from assms(2) have "bound + 2 \<le> length rows" by simp
  from stops_after_bound [OF assms(1) this] obtain s' where
    "movie_loop bound lev start rows = (Stopped, s', drop (bound + 2) rows)"
    "it s' = bound + 1" "length (inserted s') = bound + 1" by blast
  moreover from assms(2) have "length (drop (bound + 2) rows) = 3" by simp
  ultimately show ?thesis by blast
qed

theorem bound_plus_five_rows_witness:
  "list_all (accepts number_list) (replicate 20005 sample_row) \<and>
   length (replicate 20005 sample_row) = 20000 + 5 \<and>
   (\<exists>s'. movie_loop 20000 number_list start (replicate 20005 sample_row)
            = (Stopped, s', replicate 3 sample_row) \<and>
         it s' = 20001 \<and> length (inserted s') = 20001)"
  using bound_plus_five_rows [of number_list "replicate 20005 sample_row" 20000]
  by (simp add: sample_rows_accepted)

text \<open>
  The specification has the loop stop after row \<open>bound + 1\<close> with four rows unread. On a
  header and 20005 rows the script stops with three rows unread: row 20002 has been read.
\<close>

theorem over_bound_row_is_read:
  "fst (insert_movie_features number_list (sample_header # replicate 20005 sample_row)) = Stopped \<and>
   length (snd (snd (insert_movie_features number_list
      (sample_header # replicate 20005 sample_row)))) = 3 \<and>
   length (snd (snd (insert_movie_features number_list
      (sample_header # replicate 20005 sample_row)))) \<noteq> 4"
proof -
  have "20000 + 2 \<le> length (replicate 20005 sample_row)" by simp
  from stops_after_bound [OF sample_rows_accepted this] obtain s' :: "pystr list vars" where
    "movie_loop 20000 number_list start (replicate 20005 sample_row)
      = (Stopped, s', drop (20000 + 2) (replicate 20005 sample_row))" by blast
  then show ?thesis by (simp add: insert_movie_features_def)
qed

section \<open>Text cells\<close>

text \<open>
  C4. A cell that is not a numeric cell at one of the integer positions has every
  single quote replaced by a blank, and the length compared with 10000 is that of the
  string after the replacement. When the column loop gets to such a cell (the row has
  passed lines 152 and 155 and the cells before it were converted) and that length
  exceeds 10000, line 173 leaves the column loop and line 178 skips the row: the record
  is empty, nothing is inserted and the counter is unchanged. From a row that holds such
  a cell at any position, no record is inserted and the counter is unchanged, whatever
  the cells before it and the state.
\<close>

theorem over_long_text_cell_rejects_row:
  "(\<not> (isnumeric d \<and> col \<in> set numeric_columns_idx) \<longrightarrow>
      convert_cell col d =
        (if 10000 < length (replace_chr 39 32 d) then Long
         else Assigned (PyStr (replace_chr 39 32 d))) \<and>
      39 \<notin> set (replace_chr 39 32 d)) \<and>
   (29 \<le> length r \<and> it s \<le> bound \<and> tl r = pre @ d # post \<and>
    convert_cols 0 pre = Converted ws \<and>
    \<not> (isnumeric d \<and> length pre \<in> set numeric_columns_idx) \<and>
    10000 < length (replace_chr 39 32 d) \<longrightarrow>
      loop_body bound lev s r = (Next, s\<lparr>insert_data := [], long_data_exists := True\<rparr>)) \<and>
   (tl r = pre @ d # post \<and>
    \<not> (isnumeric d \<and> length pre \<in> set numeric_columns_idx) \<and>
    10000 < length (replace_chr 39 32 d) \<longrightarrow>
      inserted (snd (loop_body bound lev s r)) = inserted s \<and>
      it (snd (loop_body bound lev s r)) = it s)"
proof (intro conjI impI)
  assume "\<not> (isnumeric d \<and> col \<in> set numeric_columns_idx)"
  then show "convert_cell col d =
        (if 10000 < length (replace_chr 39 32 d) then Long
         else Assigned (PyStr (replace_chr 39 32 d)))"
    by (simp add: convert_cell_text length_replace_chr)
  show "39 \<notin> set (replace_chr 39 32 d)" by (rule no_quote_left)
next
  assume a: "29 \<le> length r \<and> it s \<le> bound \<and> tl r = pre @ d # post \<and>
    convert_cols 0 pre = Converted ws \<and>
    \<not> (isnumeric d \<and> length pre \<in> set numeric_columns_idx) \<and>
    10000 < length (replace_chr 39 32 d)"
  then have "convert_cols 0 (pre @ d # post) = LongData"
    by (intro long_cell_leaves_loop [where ws = ws]) simp_all
  with a have "convert_cols 0 (tl r) = LongData" by simp
  with a show "loop_body bound lev s r = (Next, s\<lparr>insert_data := [], long_data_exists := True\<rparr>)"
    by (simp add: loop_body_long)
next
  assume a: "tl r = pre @ d # post \<and>
    \<not> (isnumeric d \<and> length pre \<in> set numeric_columns_idx) \<and>
    10000 < length (replace_chr 39 32 d)"
  then have n: "\<And>vs. convert_cols 0 (tl r) \<noteq> Converted vs"
    using long_cell_never_converted [of d pre post] by simp
  from unconverted_row_inserts_nothing [OF n, of bound lev s]
  show "inserted (snd (loop_body bound lev s r)) = inserted s"
    and "it (snd (loop_body bound lev s r)) = it s"
    by simp_all
qed

theorem over_long_text_cell_rejects_row_witness:
  "\<not> (isnumeric (py ''Schindler's List'') \<and> 24 \<in> set numeric_columns_idx) \<and>
   convert_cell 24 (py ''Schindler's List'') = Assigned (PyStr (py ''Schindler s List'')) \<and>
   29 \<le> length long_title_row \<and> it (start :: pystr list vars) \<le> 20000 \<and>
   tl long_title_row = (cells_before_budget @ py ''30000000'' # cells_before_title)
     @ replicate 10001 97 # (cells_after_title @ [py ''[0.5, -1.25]'']) \<and>
   convert_cols 0 (cells_before_budget @ py ''30000000'' # cells_before_title)
     = Converted (values_before_budget @ PyInt 30000000 # values_before_title) \<and>
   \<not> (isnumeric (replicate 10001 97) \<and>
      length (cells_before_budget @ py ''30000000'' # cells_before_title)
        \<in> set numeric_columns_idx) \<and>
   10000 < length (replace_chr 39 32 (replicate 10001 97)) \<and>
   loop_body 20000 number_list start long_title_row
     = (Next, start\<lparr>insert_data := [], long_data_exists := True\<rparr>) \<and>
   inserted (snd (loop_body 20000 number_list other_state long_title_row))
     = inserted other_state \<and>
   it (snd (loop_body 20000 number_list other_state long_title_row)) = it other_state"
proof -
  let ?pre = "cells_before_budget @ py ''30000000'' # cells_before_title"
  let ?post = "cells_after_title @ [py ''[0.5, -1.25]'']"
  have h1: "\<not> (isnumeric (py ''Schindler's List'') \<and> 24 \<in> set numeric_columns_idx)"
    by (simp add: numeric_columns_idx_def)
  have r1: "replace_chr 39 32 (py ''Schindler's List'') = py ''Schindler s List''"
    by (simp add: replace_chr_def py_def)
  have r2: "\<not> 10000 < length (replace_chr 39 32 (py ''Schindler's List''))"
    by (simp add: length_replace_chr py_def)
  have len: "29 \<le> length long_title_row" by (simp add: length_sample_rows)
  have s0: "it (start :: pystr list vars) \<le> 20000" by (simp add: start_def)
  have h2: "\<not> (isnumeric (replicate 10001 97) \<and> length ?pre \<in> set numeric_columns_idx)"
    by (simp add: letters_not_numeric)
  have h3: "10000 < length (replace_chr 39 32 (replicate 10001 97))"
    by (simp add: length_replace_chr)
  from over_long_text_cell_rejects_row
    [of "py ''Schindler's List''" 24 long_title_row start 20000 ?pre ?post
        "values_before_budget @ PyInt 30000000 # values_before_title" number_list,
     THEN conjunct1] h1
  have "convert_cell 24 (py ''Schindler's List'') =
        (if 10000 < length (replace_chr 39 32 (py ''Schindler's List'')) then Long
         else Assigned (PyStr (replace_chr 39 32 (py ''Schindler's List''))))"
    by blast
  with r2 have c1: "convert_cell 24 (py ''Schindler's List'')
      = Assigned (PyStr (py ''Schindler s List''))"
    by (simp only: r1 if_False)
  from over_long_text_cell_rejects_row
    [of "replicate 10001 97" 24 long_title_row start 20000 ?pre ?post
        "values_before_budget @ PyInt 30000000 # values_before_title" number_list,
     THEN conjunct2, THEN conjunct1]
    len s0 tl_long_title_row front_cells_converted h2 h3
  have c2: "loop_body 20000 number_list start long_title_row
     = (Next, start\<lparr>insert_data := [], long_data_exists := True\<rparr>)"
    by blast
  from over_long_text_cell_rejects_row
    [of "replicate 10001 97" 24 long_title_row other_state 20000 ?pre ?post
        "values_before_budget @ PyInt 30000000 # values_before_title" number_list,
     THEN conjunct2, THEN conjunct2]
    tl_long_title_row h2 h3
  have c3: "inserted (snd (loop_body 20000 number_list other_state long_title_row))
     = inserted other_state \<and>
   it (snd (loop_body 20000 number_list other_state long_title_row)) = it other_state"
    by blast
  from h1 c1 len s0 tl_long_title_row front_cells_converted h2 h3 c2 c3 show ?thesis by blast
qed

text \<open>
  The test of line 167 and the call of line 168 do not agree: \<^verbatim>\<open>isnumeric\<close> accepts
  characters that \<^verbatim>\<open>int\<close> does not convert. A row whose budget is the character superscript two ends
  the run at column 5 with \<^verbatim>\<open>ValueError\<close>; the cells after the budget are not looked
  at, and nothing is inserted.
\<close>

lemma superscript_budget_ends_run:
  "loop_body 20000 number_list start superscript_title_row = (Raise ValueError, start)"
proof -
  have s0: "it (start :: pystr list vars) \<le> 20000" by (simp add: start_def)
  have e: "start\<lparr>insert_data := [], long_data_exists := False\<rparr> = (start :: pystr list vars)"
    by (simp add: start_def)
  show ?thesis
    using loop_body_raised [OF _ s0 superscript_title_row_cols, of number_list] e
    by (simp add: length_sample_rows)
qed

text \<open>
  C8. The last cell of a row of the file's width is the cell of the vector field, at
  position 27, which is not an integer position; in any row of at least 29 cells the last
  cell lies at position 27 or beyond and goes through the branch of line 170. The string
  handed to \<^verbatim>\<open>ast.literal_eval\<close> at line 180 is the cell with every single quote
  replaced by a blank. When the column loop gets to a last cell longer than 10000
  characters (the row has at least 29 cells, the counter passes line 155 and the cells
  before the last were converted), the row is skipped whole at line 178, before line 180.
  From a row of at least 29 cells whose last cell is longer than 10000 characters no
  record is inserted and the counter is unchanged, whatever the other cells and the
  state.
\<close>

theorem vector_cell_treated_as_text:
  "movie_feature_fields ! 27 = (''movie_feature'', FLOAT_VECTOR 128) \<and>
   27 \<notin> set numeric_columns_idx \<and>
   (29 \<le> length r \<longrightarrow>
      length (tl r) - 1 \<notin> set numeric_columns_idx \<and>
      convert_cell (length (tl r) - 1) (last r) =
        (if 10000 < length (last r) then Long
         else Assigned (PyStr (replace_chr 39 32 (last r))))) \<and>
   (29 \<le> length r \<and> convert_cols 0 (tl r) = Converted vs \<longrightarrow>
      eval_last lev vs =
        (case lev (replace_chr 39 32 (last r)) of
           None \<Rightarrow> Inl LiteralEvalError
         | Some v \<Rightarrow> Inr (map Scalar (butlast vs) @ [Parsed v]))) \<and>
   (29 \<le> length r \<and> it s \<le> bound \<and> 10000 < length (last r) \<and>
    convert_cols 0 (butlast (tl r)) = Converted ws \<longrightarrow>
      loop_body bound lev s r = (Next, s\<lparr>insert_data := [], long_data_exists := True\<rparr>)) \<and>
   (29 \<le> length r \<and> 10000 < length (last r) \<longrightarrow>
      inserted (snd (loop_body bound lev s r)) = inserted s \<and>
      it (snd (loop_body bound lev s r)) = it s)"
proof (intro conjI impI)
  show "movie_feature_fields ! 27 = (''movie_feature'', FLOAT_VECTOR 128)"
    by (simp add: movie_feature_fields_def)
  show "27 \<notin> set numeric_columns_idx" by (simp add: numeric_columns_idx_def)
next
  assume len: "29 \<le> length r"
  then have "27 \<le> length (tl r) - 1" by simp
  then show "length (tl r) - 1 \<notin> set numeric_columns_idx"
    using allowlist_below_27 [of "length (tl r) - 1"] by auto
  from last_cell_is_text [OF len] show "convert_cell (length (tl r) - 1) (last r) =
        (if 10000 < length (last r) then Long
         else Assigned (PyStr (replace_chr 39 32 (last r))))"
    by simp
next
  assume "29 \<le> length r \<and> convert_cols 0 (tl r) = Converted vs"
  then have "vs \<noteq> [] \<and> last vs = PyStr (replace_chr 39 32 (last r))"
    using last_converted [of r vs] by simp
  then show "eval_last lev vs =
        (case lev (replace_chr 39 32 (last r)) of
           None \<Rightarrow> Inl LiteralEvalError
         | Some v \<Rightarrow> Inr (map Scalar (butlast vs) @ [Parsed v]))"
    by (simp add: eval_last_def)
next
  assume a: "29 \<le> length r \<and> it s \<le> bound \<and> 10000 < length (last r) \<and>
    convert_cols 0 (butlast (tl r)) = Converted ws"
  then have len: "29 \<le> length r" by simp
  from len have "27 \<le> length (butlast (tl r))" by simp
  then have "length (butlast (tl r)) \<notin> set numeric_columns_idx"
    using allowlist_below_27 [of "length (butlast (tl r))"] by auto
  with a have "convert_cols 0 (butlast (tl r) @ last r # []) = LongData"
    by (intro long_cell_leaves_loop [where ws = ws]) (simp_all add: length_replace_chr)
  with row_parts [OF len] have "convert_cols 0 (tl r) = LongData" by simp
  with a show "loop_body bound lev s r = (Next, s\<lparr>insert_data := [], long_data_exists := True\<rparr>)"
    by (simp add: loop_body_long)
next
  assume a: "29 \<le> length r \<and> 10000 < length (last r)"
  then have len: "29 \<le> length r" by simp
  from len have "27 \<le> length (butlast (tl r))" by simp
  then have "length (butlast (tl r)) \<notin> set numeric_columns_idx"
    using allowlist_below_27 [of "length (butlast (tl r))"] by auto
  with a have "\<And>vs. convert_cols 0 (butlast (tl r) @ last r # []) \<noteq> Converted vs"
    by (intro long_cell_never_converted) (simp_all add: length_replace_chr)
  with row_parts [OF len] have n: "\<And>vs. convert_cols 0 (tl r) \<noteq> Converted vs" by simp
  from unconverted_row_inserts_nothing [OF n, of bound lev s]
  show "inserted (snd (loop_body bound lev s r)) = inserted s"
    and "it (snd (loop_body bound lev s r)) = it s"
    by simp_all
qed

theorem vector_cell_treated_as_text_witness:
  "29 \<le> length quoted_vector_row \<and>
   last quoted_vector_row = [91, 39] @ py ''0.5'' @ [39, 93] \<and>
   convert_cell (length (tl quoted_vector_row) - 1) (last quoted_vector_row)
     = Assigned (PyStr (py ''[ 0.5 ]'')) \<and>
   convert_cols 0 (tl quoted_vector_row)
     = Converted (movie_values (PyInt 30000000) (PyStr (py ''Toy Story''))
         @ [PyStr (py ''[ 0.5 ]'')]) \<and>
   eval_last number_list
       (movie_values (PyInt 30000000) (PyStr (py ''Toy Story'')) @ [PyStr (py ''[ 0.5 ]'')])
     = Inr (map Scalar (movie_values (PyInt 30000000) (PyStr (py ''Toy Story'')))
          @ [Parsed [py ''0.5'']]) \<and>
   29 \<le> length long_vector_row \<and> it (start :: pystr list vars) \<le> 20000 \<and>
   10000 < length (last long_vector_row) \<and>
   convert_cols 0 (butlast (tl long_vector_row))
     = Converted (movie_values (PyInt 30000000) (PyStr (py ''Toy Story''))) \<and>
   loop_body 20000 number_list start long_vector_row
     = (Next, start\<lparr>insert_data := [], long_data_exists := True\<rparr>) \<and>
   inserted (snd (loop_body 20000 number_list other_state long_vector_row))
     = inserted other_state \<and>
   it (snd (loop_body 20000 number_list other_state long_vector_row)) = it other_state"
proof -
  let ?vs = "movie_values (PyInt 30000000) (PyStr (py ''Toy Story'')) @ [PyStr (py ''[ 0.5 ]'')]"
  let ?ws = "movie_values (PyInt 30000000) (PyStr (py ''Toy Story''))"
  have lq: "29 \<le> length quoted_vector_row" by (simp add: length_sample_rows)
  have q: "last quoted_vector_row = [91, 39] @ py ''0.5'' @ [39, 93]"
    by (simp add: quoted_vector_row_def last_movie_row quoted_vector_def)
  have q': "last quoted_vector_row = quoted_vector"
    by (simp add: quoted_vector_row_def last_movie_row)
  have ql: "\<not> 10000 < length quoted_vector" by (simp add: quoted_vector_def py_def)
  from vector_cell_treated_as_text
    [of quoted_vector_row ?vs number_list start 20000 ?ws, THEN conjunct2, THEN conjunct2,
     THEN conjunct1] lq
  have "convert_cell (length (tl quoted_vector_row) - 1) (last quoted_vector_row) =
        (if 10000 < length (last quoted_vector_row) then Long
         else Assigned (PyStr (replace_chr 39 32 (last quoted_vector_row))))"
    by blast
  with ql have c0: "convert_cell (length (tl quoted_vector_row) - 1) (last quoted_vector_row)
     = Assigned (PyStr (py ''[ 0.5 ]''))"
    by (simp only: q' quoted_vector_replaced if_False)
  from vector_cell_treated_as_text
    [of quoted_vector_row ?vs number_list start 20000 ?ws, THEN conjunct2, THEN conjunct2,
     THEN conjunct2, THEN conjunct1] lq quoted_vector_row_cols
  have "eval_last number_list ?vs =
        (case number_list (replace_chr 39 32 (last quoted_vector_row)) of
           None \<Rightarrow> Inl LiteralEvalError
         | Some v \<Rightarrow> Inr (map Scalar (butlast ?vs) @ [Parsed v]))"
    by blast
  then have c1: "eval_last number_list ?vs = Inr (map Scalar ?ws @ [Parsed [py ''0.5'']])"
    by (simp add: q' quoted_vector_replaced number_list_blanks)
  have ll: "29 \<le> length long_vector_row" by (simp add: length_sample_rows)
  have s0: "it (start :: pystr list vars) \<le> 20000" by (simp add: start_def)
  have lv: "10000 < length (last long_vector_row)"
    by (simp add: long_vector_row_def last_movie_row)
  have nr: "convert_cols 0 (butlast (tl long_vector_row)) = Converted ?ws"
    by (simp add: long_vector_row_def butlast_tl_movie_row all_but_vector_converted)
  from vector_cell_treated_as_text
    [of long_vector_row ?vs number_list start 20000 ?ws, THEN conjunct2, THEN conjunct2,
     THEN conjunct2, THEN conjunct2, THEN conjunct1] ll s0 lv nr
  have c2: "loop_body 20000 number_list start long_vector_row
     = (Next, start\<lparr>insert_data := [], long_data_exists := True\<rparr>)"
    by blast
  from vector_cell_treated_as_text
    [of long_vector_row ?vs number_list other_state 20000 ?ws, THEN conjunct2, THEN conjunct2,
     THEN conjunct2, THEN conjunct2, THEN conjunct2] ll lv
  have c3: "inserted (snd (loop_body 20000 number_list other_state long_vector_row))
     = inserted other_state \<and>
   it (snd (loop_body 20000 number_list other_state long_vector_row)) = it other_state"
    by blast
  from lq q c0 quoted_vector_row_cols c1 ll s0 lv nr c2 c3 show ?thesis by blast
qed

section \<open>The vector cell\<close>

text \<open>
  C3, as the code has it. For a row that reaches line 180 (at least 29 cells, the counter
  within the bound, the column loop run to its end), what happens is decided by
  \<^verbatim>\<open>ast.literal_eval\<close> alone, applied to the last cell with its single quotes replaced.
  When it returns, the row is inserted with the value returned in the last place, whatever
  that value is: the script compares no length with the dimension 128. When it raises, the
  exception is caught nowhere and ends the run.
\<close>

theorem literal_eval_decides_row:
  assumes len: "29 \<le> length r" and le: "it s \<le> bound"
    and cols: "convert_cols 0 (tl r) = Converted vs"
  shows "loop_body bound lev s r =
    (case lev (replace_chr 39 32 (last r)) of
       None \<Rightarrow> (Raise LiteralEvalError, s\<lparr>insert_data := [], long_data_exists := False\<rparr>)
     | Some v \<Rightarrow>
        (Next, s\<lparr>insert_data := map (\<lambda>data. [data]) (map Scalar (butlast vs) @ [Parsed v]),
                  long_data_exists := False,
                  inserted := inserted s @ [map (\<lambda>data. [data]) (map Scalar (butlast vs) @ [Parsed v])],
                  it := it s + 1\<rparr>))"
proof (cases "lev (replace_chr 39 32 (last r))")
  case None
  with last_converted [OF len cols] have "eval_last lev vs = Inl LiteralEvalError"
    by (simp add: eval_last_def)
  from loop_body_literal_raised [OF len le cols this] None show ?thesis by simp
next
  case (Some v)
  with last_converted [OF len cols]
  have "eval_last lev vs = Inr (map Scalar (butlast vs) @ [Parsed v])"
    by (simp add: eval_last_def)
  from loop_body_inserted [OF len le cols this] Some show ?thesis by simp
qed

theorem literal_eval_decides_row_witness:
  "29 \<le> length sample_row \<and> it (start :: pystr list vars) \<le> 20000 \<and>
   convert_cols 0 (tl sample_row)
     = Converted (movie_values (PyInt 30000000) (PyStr (py ''Toy Story'')) @ [PyStr (py ''[0.5, -1.25]'')]) \<and>
   loop_body 20000 number_list start sample_row =
     (Next, start\<lparr>insert_data := sample_record, long_data_exists := False,
                   inserted := [sample_record], it := 1\<rparr>)"
proof -
  have len: "29 \<le> length sample_row" by (simp add: length_sample_rows)
  have s0: "it (start :: pystr list vars) \<le> 20000" by (simp add: start_def)
  have l: "last sample_row = (py ''[0.5, -1.25]'')" by (simp add: sample_row_def last_movie_row)
  have q: "replace_chr 39 32 (py ''[0.5, -1.25]'') = py ''[0.5, -1.25]''"
    by (simp add: replace_chr_def py_def)
  from literal_eval_decides_row [OF len s0 sample_row_cols, of number_list]
  have "loop_body 20000 number_list start sample_row =
     (Next, start\<lparr>insert_data := sample_record, long_data_exists := False,
                   inserted := [sample_record], it := 1\<rparr>)"
    by (simp add: l q number_list_sample sample_record_def) (simp add: start_def)
  with len s0 sample_row_cols show ?thesis by simp
qed

text \<open>
  The specification has a vector of the wrong length or a cell that does not parse
  rejected as a malformed vector, and the run go on. A row with a vector of two numbers
  is inserted, and a row whose vector lacks its closing bracket ends the run.
\<close>

theorem short_vector_inserted_broken_vector_raises:
  "number_list (last sample_row) = Some [py ''0.5'', py ''-1.25''] \<and>
   length [py ''0.5'', py ''-1.25''] \<noteq> (128 :: nat) \<and>
   fst (loop_body 20000 number_list start sample_row) = Next \<and>
   inserted (snd (loop_body 20000 number_list start sample_row)) = [sample_record] \<and>
   number_list (last broken_vector_row) = None \<and>
   loop_body 20000 number_list start broken_vector_row = (Raise LiteralEvalError, start)"
proof -
  have s0: "it (start :: pystr list vars) \<le> 20000" by (simp add: start_def)
  have e: "start\<lparr>insert_data := [], long_data_exists := False\<rparr> = (start :: pystr list vars)"
    by (simp add: start_def)
  have i: "inserted (start :: pystr list vars) = []" by (simp add: start_def)
  from sample_row_body [OF s0] broken_vector_row_body [OF s0] e i show ?thesis
    by (simp add: sample_row_def broken_vector_row_def last_movie_row
          number_list_sample number_list_unclosed)
qed

section \<open>Rows that are skipped\<close>

text \<open>
  C5, as the code has it. A row that is skipped at line 153 (fewer than 29 cells) or at
  line 178 (a text cell longer than 10000 characters) does not end the run: the body goes
  on to the next row, the counter and the rows inserted are as before, and the rest of
  the source is processed as if the row had not been there. The script has no rejection of
  a malformed vector: such a row ends the run.
\<close>

theorem skipped_row_does_not_end_run:
  assumes "skips r" and "length r < 29 \<or> it s \<le> bound"
  shows "fst (loop_body bound lev s r) = Next \<and>
         it (snd (loop_body bound lev s r)) = it s \<and>
         inserted (snd (loop_body bound lev s r)) = inserted s \<and>
         report (movie_loop bound lev s (r # rows)) = report (movie_loop bound lev s rows)"
proof (cases "length r < 29")
  case True
  then show ?thesis by (simp add: loop_body_short)
next
  case False
  with assms have le: "it s \<le> bound" and len: "29 \<le> length r"
    and cols: "convert_cols 0 (tl r) = LongData"
    by (auto simp: skips_def split: cols_outcome.splits)
  from skipped_row [OF assms(1) le] loop_body_long [OF len le cols]
  show ?thesis by simp
qed

theorem skipped_row_does_not_end_run_witness:
  "skips long_title_row \<and> it (start :: pystr list vars) \<le> 20000 \<and>
   fst (loop_body 20000 number_list start long_title_row) = Next \<and>
   report (movie_loop 20000 number_list start [long_title_row, short_row, sample_row])
     = (Exhausted, 1, [sample_record], [])"
proof -
  have s0: "it (start :: pystr list vars) \<le> 20000" by (simp add: start_def)
  have long: "skips long_title_row" and short: "skips short_row"
    by (simp_all add: skips_sample_rows)
  have "report (movie_loop 20000 number_list start [long_title_row, short_row, sample_row])
      = report (movie_loop 20000 number_list start [short_row, sample_row])"
    using skipped_row_does_not_end_run [of long_title_row start 20000 number_list "[short_row, sample_row]"]
      long s0 by simp
  also have "\<dots> = report (movie_loop 20000 number_list start [sample_row])"
    using skipped_row_does_not_end_run [of short_row start 20000 number_list "[sample_row]"]
      short s0 by simp
  also have "\<dots> = (Exhausted, 1, [sample_record], [])"
    by (simp add: sample_row_body [OF s0]) (simp add: start_def)
  finally have run: "report (movie_loop 20000 number_list start [long_title_row, short_row, sample_row])
      = (Exhausted, 1, [sample_record], [])" .
  have "fst (loop_body 20000 number_list start long_title_row) = Next"
    using skipped_row_does_not_end_run [of long_title_row start 20000 number_list "[]"] long s0
    by simp
  with run long s0 show ?thesis by simp
qed

text \<open>
  The specification counts the malformed vector among the rejections that never end the
  run. A row whose vector lacks its bracket ends the run, and the row after it is not read.
\<close>

theorem broken_vector_ends_run:
  "insert_movie_features number_list [sample_header, broken_vector_row, sample_row]
     = (Aborted LiteralEvalError, start, [sample_row])"
proof -
  have s0: "it (start :: pystr list vars) \<le> 20000" by (simp add: start_def)
  have "start\<lparr>insert_data := [], long_data_exists := False\<rparr> = (start :: pystr list vars)"
    by (simp add: start_def)
  with broken_vector_row_body [OF s0] show ?thesis
    by (simp add: insert_movie_features_def)
qed

section \<open>The body reads the row alone\<close>

text \<open>
  C7. What the body makes of a row of at least 29 cells (whether it inserts, skips or
  raises, and the record it builds and inserts) is the same from any two values of the
  variables that let the row through line 155: it depends on the row alone, not on the
  counter, on the rows inserted before, or on what an earlier row left in
  \<^verbatim>\<open>insert_data\<close> and \<^verbatim>\<open>long_data_exists\<close>.
\<close>

theorem row_outcome_independent_of_state:
  assumes "29 \<le> length r" and "it s \<le> bound" and "it t \<le> bound"
  shows "fst (loop_body bound lev s r) = fst (loop_body bound lev t r) \<and>
         insert_data (snd (loop_body bound lev s r)) = insert_data (snd (loop_body bound lev t r)) \<and>
         long_data_exists (snd (loop_body bound lev s r))
           = long_data_exists (snd (loop_body bound lev t r)) \<and>
         drop (length (inserted s)) (inserted (snd (loop_body bound lev s r)))
           = drop (length (inserted t)) (inserted (snd (loop_body bound lev t r)))"
proof (rule loop_body_cases [where r = r and bound = bound and lev = lev and s = s])
  assume "length r < 29"
  with assms(1) show ?thesis by simp
next
  assume "bound < it s"
  with assms(2) show ?thesis by simp
next
  assume "convert_cols 0 (tl r) = LongData"
  with assms show ?thesis by (simp add: loop_body_long)
next
  fix e
  assume "loop_body bound lev s r = (Raise e, s\<lparr>insert_data := [], long_data_exists := False\<rparr>)"
  with assms show ?thesis
    by (simp add: loop_body_def Let_def split: cols_outcome.splits sum.splits)
next
  fix vs es
  assume "convert_cols 0 (tl r) = Converted vs" and "eval_last lev vs = Inr es"
  with assms show ?thesis by (simp add: loop_body_inserted)
qed

theorem row_outcome_independent_of_state_witness:
  "29 \<le> length sample_row \<and> it (start :: pystr list vars) \<le> 20000 \<and> it other_state \<le> 20000 \<and>
   insert_data (snd (loop_body 20000 number_list start sample_row)) = sample_record \<and>
   insert_data (snd (loop_body 20000 number_list other_state sample_row)) = sample_record \<and>
   fst (loop_body 20000 number_list other_state sample_row) = Next \<and>
   drop 2 (inserted (snd (loop_body 20000 number_list other_state sample_row))) = [sample_record]"
proof -
  have s0: "it (start :: pystr list vars) \<le> 20000" by (simp add: start_def)
  have t0: "it other_state \<le> 20000" by (simp add: other_state_def)
  have len: "29 \<le> length sample_row" by (simp add: length_sample_rows)
  have n: "length (inserted other_state) = 2" "length (inserted (start :: pystr list vars)) = 0"
    by (simp_all add: other_state_def start_def)
  from row_outcome_independent_of_state [OF len s0 t0, of number_list] sample_row_body [OF s0] n
  show ?thesis using s0 t0 len by (simp add: start_def)
qed

section \<open>The counter\<close>

text \<open>
  C10. Each run of the body advances the counter by the number of rows it inserts, none or
  one; so after any source the counter is the number of rows inserted, and it never exceeds
  the bound by more than one. Rows that are skipped, however many, leave the run as it would
  have been without them: with \<open>bound + 2\<close> accepted rows after any number of skipped
  ones, the loop reads them all before it stops at line 156.
\<close>

theorem counter_counts_insertions:
  "(loop_body bound lev s r = (c, s1) \<longrightarrow>
      it s1 + length (inserted s) = it s + length (inserted s1)) \<and>
   (movie_loop bound lev start rows = (e, s', unread) \<longrightarrow>
      it s' = length (inserted s') \<and> it s' \<le> bound + 1) \<and>
   (list_all skips rejected \<longrightarrow>
      report (movie_loop bound lev start (rejected @ rows))
        = report (movie_loop bound lev start rows)) \<and>
   (list_all skips rejected \<and> list_all (accepts lev) rows \<and> length rows = bound + 2 \<longrightarrow>
      (\<exists>s'. movie_loop bound lev start (rejected @ rows) = (Stopped, s', []) \<and>
            it s' = bound + 1 \<and> length (inserted s') = bound + 1))"
proof (intro conjI impI)
  assume "loop_body bound lev s r = (c, s1)"
  then show "it s1 + length (inserted s) = it s + length (inserted s1)"
    by (rule loop_body_counts)
next
  assume run: "movie_loop bound lev start rows = (e, s', unread)"
  from movie_loop_counts [OF run] show "it s' = length (inserted s')" by (simp add: start_def)
  from movie_loop_bounded [OF run] show "it s' \<le> bound + 1" by (simp add: start_def)
next
  assume "list_all skips rejected"
  then show "report (movie_loop bound lev start (rejected @ rows))
      = report (movie_loop bound lev start rows)"
    by (rule skipped_rows) (simp add: start_def)
next
  assume a: "list_all skips rejected \<and> list_all (accepts lev) rows \<and> length rows = bound + 2"
  then have "bound + 2 \<le> length rows" by simp
  from stops_after_bound [OF _ this, of lev] a obtain s1 where
    run: "movie_loop bound lev start rows = (Stopped, s1, [])"
    and i: "it s1 = bound + 1" and n: "length (inserted s1) = bound + 1" by auto
  from a have skip: "report (movie_loop bound lev start (rejected @ rows))
      = report (movie_loop bound lev start rows)"
    by (intro skipped_rows) (simp_all add: start_def)
  obtain e s2 u where all: "movie_loop bound lev start (rejected @ rows) = (e, s2, u)"
    by (cases "movie_loop bound lev start (rejected @ rows)")
  with skip run have "e = Stopped" "u = []" "it s2 = it s1" "inserted s2 = inserted s1"
    by simp_all
  with all i n show "\<exists>s'. movie_loop bound lev start (rejected @ rows) = (Stopped, s', []) \<and>
      it s' = bound + 1 \<and> length (inserted s') = bound + 1"
    by simp
qed

theorem counter_counts_insertions_witness:
  "list_all skips (replicate 100000 short_row) \<and>
   list_all (accepts number_list) (replicate 20002 sample_row) \<and>
   length (replicate 20002 sample_row) = 20000 + 2 \<and>
   (\<exists>s'. movie_loop 20000 number_list start (replicate 100000 short_row @ replicate 20002 sample_row)
           = (Stopped, s', []) \<and> it s' = 20001 \<and> length (inserted s') = 20001) \<and>
   report (movie_loop 20000 number_list start (replicate 100000 short_row @ [sample_row]))
     = report (movie_loop 20000 number_list start [sample_row]) \<and>
   loop_body 20000 number_list start long_title_row
     = (Next, start\<lparr>insert_data := [], long_data_exists := True\<rparr>) \<and>
   it (start\<lparr>insert_data := [], long_data_exists := True\<rparr> :: pystr list vars)
       + length (inserted (start :: pystr list vars))
     = it (start :: pystr list vars)
       + length (inserted (start\<lparr>insert_data := [], long_data_exists := True\<rparr> :: pystr list vars))"
proof -
  have sk: "list_all skips (replicate 100000 short_row)"
    by (simp add: list_all_replicate skips_sample_rows)
  have ac: "list_all (accepts number_list) (replicate 20002 sample_row)"
    by (rule sample_rows_accepted)
  have len: "length (replicate 20002 sample_row) = 20000 + 2" by simp
  have s0: "it (start :: pystr list vars) \<le> 20000" by (simp add: start_def)
  have body: "loop_body 20000 number_list start long_title_row
     = (Next, start\<lparr>insert_data := [], long_data_exists := True\<rparr>)"
    by (rule loop_body_long) (simp_all add: length_sample_rows long_title_row_cols s0)
  note inst = counter_counts_insertions [of 20000 number_list start long_title_row Next
      "start\<lparr>insert_data := [], long_data_exists := True\<rparr>" _ _ _ _ "replicate 100000 short_row"]
  from inst [of "replicate 20002 sample_row"] sk ac len
  have a: "\<exists>s'. movie_loop 20000 number_list start (replicate 100000 short_row @ replicate 20002 sample_row)
           = (Stopped, s', []) \<and> it s' = 20001 \<and> length (inserted s') = 20001"
    by simp
  from inst [of "[sample_row]"] sk
  have b: "report (movie_loop 20000 number_list start (replicate 100000 short_row @ [sample_row]))
     = report (movie_loop 20000 number_list start [sample_row])"
    by blast
  from inst [of "[sample_row]"] body
  have c: "it (start\<lparr>insert_data := [], long_data_exists := True\<rparr> :: pystr list vars)
       + length (inserted (start :: pystr list vars))
     = it (start :: pystr list vars)
       + length (inserted (start\<lparr>insert_data := [], long_data_exists := True\<rparr> :: pystr list vars))"
    by blast
  from sk ac len a b body c show ?thesis by blast
qed

end
